theory Spec2Isabelle
  imports Complex_Main
begin

section \<open>The gym member system (GYM/gym.py)\<close>

text \<open>
  The program is a Streamlit script: every click re-runs it and executes one branch of
  the menu. Each branch is modelled as a function from the installation (the pandas it
  runs, the three CSV files, the directory of reference photos and the mails handed to
  \<open>send_email\<close>) to the message that is displayed and the new installation. The face
  verifier \<open>DeepFace.verify\<close> is an external capability: it is a parameter of the model.

  Ids and fees are Python integers and texts are byte strings (UTF-8). The probe photo
  of an attendance attempt lives in a transient file that only the verifier reads; it
  is not part of the state. The captured photo is a camera image that decodes; the file
  system is POSIX. An exception that the script does not catch ends the run: the model
  returns it as the message, with the state as it was written up to that point.
\<close>

subsection \<open>Cells, rows and data frames\<close>

datatype image = Image string

text \<open>
  A cell of a free-text column (name, email, mobile): \<open>None\<close> is pandas' missing value,
  \<open>Some s\<close> a value whose Python \<open>str\<close> is \<open>s\<close>. \<open>to_csv\<close> writes the text of a value
  and nothing for a missing one; an f-string shows a missing value as \<open>nan\<close>.
\<close>

type_synonym cell = "string option"

definition to_csv_text :: "cell \<Rightarrow> string" where
  "to_csv_text c = (case c of None \<Rightarrow> [] | Some s \<Rightarrow> s)"

definition py_str :: "cell \<Rightarrow> string" where
  "py_str c = (case c of None \<Rightarrow> ''nan'' | Some s \<Rightarrow> s)"

record member =
  ID :: int
  Name :: cell
  Email :: cell
  Mobile :: cell
  Membership :: string
  Fee :: int
  ImagePath :: string

text \<open>
  An attendance row. The \<open>ID\<close> column is held as the text that
  \<open>attendance["ID"].astype(str)\<close> compares; \<open>ExitTime\<close> is \<open>None\<close> for a missing value
  and \<open>Some ''''\<close> for the empty string that \<open>new_entry\<close> is built with.
\<close>

record attendance =
  att_ID :: string
  att_Name :: cell
  Date :: string
  EntryTime :: string
  ExitTime :: cell
  Status :: string

text \<open>
  A data frame is its column names and its rows; a CSV file holds the frame that
  \<open>to_csv\<close> wrote into it, the column names being its header row. \<open>pd.DataFrame()\<close> has
  no columns at all, so \<open>pd.DataFrame().to_csv(f, index=False)\<close> writes a file without
  a header. Rows are typed records: a row of a table has a cell for each of the table's
  canonical columns, as the rows that the script writes have.
\<close>

datatype 'a frame = Frame (columns: "string list") (rows: "'a list")

definition empty_frame_csv :: "'a frame" where
  "empty_frame_csv = Frame [] []"

definition members_columns :: "string list" where
  "members_columns = [''ID'', ''Name'', ''Email'', ''Mobile'', ''Membership'', ''Fee'', ''ImagePath'']"

definition attendance_columns :: "string list" where
  "attendance_columns = [''ID'', ''Name'', ''Date'', ''EntryTime'', ''ExitTime'', ''Status'']"

text \<open>\<open>df.empty\<close>: some axis has length 0.\<close>

definition df_empty :: "'a frame \<Rightarrow> bool" where
  "df_empty df \<longleftrightarrow> rows df = [] \<or> columns df = []"

text \<open>\<open>df[mask]\<close> keeps the columns and the rows the mask selects.\<close>

definition df_filter :: "('a \<Rightarrow> bool) \<Rightarrow> 'a frame \<Rightarrow> 'a frame" where
  "df_filter keep df = Frame (columns df) (filter keep (rows df))"

text \<open>
  \<open>pd.concat([a, b], ignore_index=True)\<close>: the columns of \<open>a\<close>, then those of \<open>b\<close> that
  \<open>a\<close> lacks; the rows of \<open>a\<close>, then those of \<open>b\<close>.
\<close>

definition pd_concat :: "'a frame \<Rightarrow> 'a frame \<Rightarrow> 'a frame" where
  "pd_concat a b =
     Frame (columns a @ filter (\<lambda>c. c \<notin> set (columns a)) (columns b)) (rows a @ rows b)"

datatype exn = EmptyDataError | IndexError | TypeError | ValueError | OSError

subsection \<open>The installation\<close>

text \<open>
  \<open>pd.read_csv\<close> infers the type of every column anew and takes some texts for missing
  values, so a free-text cell need not come back as it was written (\<open>0555\<close> in a column
  of numbers comes back as 555, \<open>NA\<close> as a missing value). What it makes of a free-text
  cell, given the written cells of its column, is the field \<open>read_text\<close>: the pandas of
  the installation, of which nothing is assumed. \<open>pandas_major\<close> is its major version:
  from version 3 on, writing a text into a column of numbers raises \<open>TypeError\<close>, where
  earlier versions widen the column. The other fields are what the script keeps on
  disk, and the calls of \<open>send_email\<close>.
\<close>

record gym =
  read_text :: "string list \<Rightarrow> string \<Rightarrow> cell"
  pandas_major :: nat
  members_csv :: "member frame"
  attendance_csv :: "attendance frame"
  deleted_members_csv :: "member frame"
  member_images :: "string \<rightharpoonup> image"
  outbox :: "(cell \<times> string) list"

text \<open>
  Reading the rows of a member file: ids and fees are written in decimal and read back
  as the same integers; a membership is one of three words and an image path starts
  with \<open>member_images/\<close>, and both are read back as written; the three free-text
  columns go through \<open>read_text\<close>.
\<close>

definition parse_members :: "(string list \<Rightarrow> string \<Rightarrow> cell) \<Rightarrow> member list \<Rightarrow> member list" where
  "parse_members parse df =
     map (\<lambda>r. r\<lparr>Name := parse (map (\<lambda>x. to_csv_text (Name x)) df) (to_csv_text (Name r)),
               Email := parse (map (\<lambda>x. to_csv_text (Email x)) df) (to_csv_text (Email r)),
               Mobile := parse (map (\<lambda>x. to_csv_text (Mobile x)) df) (to_csv_text (Mobile r))\<rparr>) df"

text \<open>
  Reading the rows of the attendance file: the id is the decimal text of an integer,
  the date and the two times are \<open>strftime\<close> texts, the status is one of two words; the
  name is free text. An empty \<open>ExitTime\<close> cell is read back as a missing value.
\<close>

definition parse_attendance ::
  "(string list \<Rightarrow> string \<Rightarrow> cell) \<Rightarrow> attendance list \<Rightarrow> attendance list" where
  "parse_attendance parse df =
     map (\<lambda>r. r\<lparr>att_Name := parse (map (\<lambda>x. to_csv_text (att_Name x)) df) (to_csv_text (att_Name r)),
               ExitTime := (if to_csv_text (ExitTime r) = [] then None else ExitTime r)\<rparr>) df"

text \<open>\<open>pd.read_csv\<close> raises \<open>EmptyDataError\<close> on a file that has no columns to parse.\<close>

definition read_csv :: "('a list \<Rightarrow> 'a list) \<Rightarrow> 'a frame \<Rightarrow> exn + 'a frame" where
  "read_csv parse_rows f =
     (if columns f = [] then Inl EmptyDataError
      else Inr (Frame (columns f) (parse_rows (rows f))))"

text \<open>
  The \<open>ExitTime\<close> column of a frame that was read: a column of numbers (float64) when
  it has rows and every cell is missing, a column of texts otherwise.
\<close>

definition exit_time_is_float :: "attendance frame \<Rightarrow> bool" where
  "exit_time_is_float df \<longleftrightarrow> rows df \<noteq> [] \<and> list_all (\<lambda>r. ExitTime r = None) (rows df)"

subsection \<open>Helper functions\<close>

text \<open>
  \<open>send_email\<close> (lines 29-41) catches every exception of the transport and returns a
  flag that no caller reads; the model records the call (recipient and subject).
\<close>

definition send_email :: "cell \<Rightarrow> string \<Rightarrow> gym \<Rightarrow> gym" where
  "send_email to subject st = st\<lparr>outbox := outbox st @ [(to, subject)]\<rparr>"

text \<open>Lines 43-59: the loaders fall back to an empty frame with the canonical columns.\<close>

definition load_members :: "gym \<Rightarrow> member frame" where
  "load_members st =
     (case read_csv (parse_members (read_text st)) (members_csv st) of
        Inl _ \<Rightarrow> Frame members_columns []
      | Inr df \<Rightarrow> df)"

definition save_members :: "member frame \<Rightarrow> gym \<Rightarrow> gym" where
  "save_members df st = st\<lparr>members_csv := df\<rparr>"

definition load_attendance :: "gym \<Rightarrow> attendance frame" where
  "load_attendance st =
     (case read_csv (parse_attendance (read_text st)) (attendance_csv st) of
        Inl _ \<Rightarrow> Frame attendance_columns []
      | Inr df \<Rightarrow> df)"

definition save_attendance :: "attendance frame \<Rightarrow> gym \<Rightarrow> gym" where
  "save_attendance df st = st\<lparr>attendance_csv := df\<rparr>"

text \<open>
  The result dictionary of \<open>DeepFace.verify\<close>: the key \<open>verified\<close>, and the key
  \<open>distance\<close> that \<open>result.get("distance", 1.0)\<close> allows to be absent. The verifier
  maps the two image paths to \<open>None\<close> when it raises. Distances are compared only, never
  computed with, and are taken to be numbers (no NaN).
\<close>

record verify_result =
  verified :: bool
  distance :: "real option"

type_synonym verifier = "string \<Rightarrow> string \<Rightarrow> verify_result option"

definition try_verify_faces ::
  "verifier \<Rightarrow> string \<Rightarrow> string \<Rightarrow> bool \<times> real \<times> verify_result option" where
  "try_verify_faces DeepFace_verify img1 img2 =
     (case DeepFace_verify img1 img2 of
        None \<Rightarrow> (False, 1, None)
      | Some result \<Rightarrow>
          (verified result, (case distance result of None \<Rightarrow> 1 | Some d \<Rightarrow> d), Some result))"

text \<open>Python's \<open>str\<close> on an integer.\<close>

definition digit_char :: "nat \<Rightarrow> char" where
  "digit_char d = ''0123456789'' ! d"

fun str_nat :: "nat \<Rightarrow> string" where
  "str_nat n =
     (if n < 10 then [digit_char n] else str_nat (n div 10) @ [digit_char (n mod 10)])"

declare str_nat.simps [simp del]

definition str_int :: "int \<Rightarrow> string" where
  "str_int i = (if i < 0 then CHR ''-'' # str_nat (nat (- i)) else str_nat (nat i))"

text \<open>\<open>name.replace(' ', '_')\<close>\<close>

definition replace_space :: "string \<Rightarrow> string" where
  "replace_space s = map (\<lambda>c. if c = CHR '' '' then CHR ''_'' else c) s"

text \<open>
  \<open>img.save(img_path)\<close> opens \<open>member_images/<file name>\<close> for writing. A NUL byte in
  the name is refused with \<open>ValueError\<close> before the file system is asked. A slash makes
  the name a path through a directory that \<open>member_images\<close> does not have, and a name
  of more than 255 bytes is too long for a directory entry: both are \<open>OSError\<close>s.
\<close>

definition img_save_error :: "string \<Rightarrow> exn option" where
  "img_save_error file_name =
     (if CHR 0x00 \<in> set file_name then Some ValueError
      else if CHR ''/'' \<in> set file_name \<or> 255 < length file_name then Some OSError
      else None)"

datatype message = Warning string | Error string | Success string | Raised exn

subsection \<open>Register Member\<close>

text \<open>
  The Register button, lines 97-123: the presence check \<open>all([name, email, mobile,
  membership, photo])\<close>, the id \<open>len(members) + 1\<close>, the photo file, the appended row
  and the mail. The photo is saved (line 105) before the table is (line 117).
\<close>

definition register_member ::
  "string \<Rightarrow> string \<Rightarrow> string \<Rightarrow> string \<Rightarrow> int \<Rightarrow> image option \<Rightarrow> gym \<Rightarrow> message \<times> gym" where
  "register_member name email mobile membership fee photo st =
     (if \<not> (name \<noteq> [] \<and> email \<noteq> [] \<and> mobile \<noteq> [] \<and> membership \<noteq> [] \<and> photo \<noteq> None)
      then (Warning ''Please fill all fields and capture image.'', st)
      else
        let members = load_members st;
            new_id = (if \<not> df_empty members then int (length (rows members)) + 1 else 1);
            file_name = str_int new_id @ ''_'' @ replace_space name @ ''.jpg'';
            img_path = ''member_images/'' @ file_name
        in (case img_save_error file_name of
              Some e \<Rightarrow> (Raised e, st)
            | None \<Rightarrow>
                let st1 = st\<lparr>member_images := (member_images st)(img_path := photo)\<rparr>;
                    new_data = Frame members_columns
                                 [\<lparr>ID = new_id, Name = Some name, Email = Some email,
                                   Mobile = Some mobile, Membership = membership, Fee = fee,
                                   ImagePath = img_path\<rparr>];
                    st2 = save_members (pd_concat members new_data) st1;
                    st3 = send_email (Some email) ''Gym Registration Successful'' st2
                in (Success (''Member Registered! ID: '' @ str_int new_id), st3)))"

subsection \<open>Update / Delete Member: the Delete button\<close>

text \<open>
  Lines 131-137 and 151-162. \<open>selected_id\<close> is the choice of the select box, one of
  the ids of the table. The row \<open>member\<close> is looked up with \<open>.iloc[0]\<close> before the
  button is read; the table is saved (line 154) before the archive is read, and the
  archive is read with a bare \<open>pd.read_csv\<close> (line 158), without the \<open>try\<close> of
  \<open>load_members\<close> and \<open>load_attendance\<close>.
\<close>

definition delete_member :: "int \<Rightarrow> gym \<Rightarrow> message \<times> gym" where
  "delete_member selected_id st =
     (let members = load_members st in
      if df_empty members then (Warning ''No members registered yet.'', st)
      else
        (case filter (\<lambda>m. ID m = selected_id) (rows members) of
           [] \<Rightarrow> (Raised IndexError, st)
         | member # _ \<Rightarrow>
             let del_member = df_filter (\<lambda>m. ID m = selected_id) members;
                 st1 = save_members (df_filter (\<lambda>m. ID m \<noteq> selected_id) members) st;
                 notify = (\<lambda>s. (Success ''Member deleted successfully.'',
                                 send_email (Email member) ''Gym Membership Deleted'' s))
             in if \<not> df_empty del_member then
                  (case read_csv (parse_members (read_text st1)) (deleted_members_csv st1) of
                     Inl e \<Rightarrow> (Raised e, st1)
                   | Inr archive \<Rightarrow>
                       notify (st1\<lparr>deleted_members_csv := pd_concat archive del_member\<rparr>))
                else notify st1))"

subsection \<open>Attendance: the scan for the best match\<close>

text \<open>
  The loop of lines 180-187, repeated word for word in lines 229-236: the accumulator is
  the pair \<open>(matched_row, best_distance)\<close>, started at \<open>(None, 1.0)\<close>.
\<close>

fun scan_members ::
  "verifier \<Rightarrow> string \<Rightarrow> member option \<times> real \<Rightarrow> member list \<Rightarrow> member option \<times> real" where
  "scan_members V img_path acc [] = acc"
| "scan_members V img_path (matched_row, best_distance) (row # members) =
     (case try_verify_faces V img_path (ImagePath row) of
        (match, dist', _) \<Rightarrow>
          scan_members V img_path
            (if match \<and> dist' < best_distance then (Some row, dist') else (matched_row, best_distance))
            members)"

definition best_match :: "verifier \<Rightarrow> string \<Rightarrow> member list \<Rightarrow> member option" where
  "best_match V img_path members = fst (scan_members V img_path (None, 1) members)"

text \<open>What the verifier wrapper reports for one member row.\<close>

definition reports_match :: "verifier \<Rightarrow> string \<Rightarrow> member \<Rightarrow> bool" where
  "reports_match V img_path row = fst (try_verify_faces V img_path (ImagePath row))"

definition reported_distance :: "verifier \<Rightarrow> string \<Rightarrow> member \<Rightarrow> real" where
  "reported_distance V img_path row = fst (snd (try_verify_faces V img_path (ImagePath row)))"

subsection \<open>Attendance: Entry and Exit\<close>

text \<open>
  Lines 171-211 and 220-256. Both branches run once a photo has been captured;
  \<open>today\<close> and \<open>now_time\<close> are the two \<open>strftime\<close> renderings of
  \<open>datetime.now()\<close>.
\<close>

definition same_day :: "string \<Rightarrow> string \<Rightarrow> attendance \<Rightarrow> bool" where
  "same_day idstr today r \<longleftrightarrow> att_ID r = idstr \<and> Date r = today"

definition mark_entry :: "verifier \<Rightarrow> string \<Rightarrow> string \<Rightarrow> gym \<Rightarrow> message \<times> gym" where
  "mark_entry V today now_time st =
     (let members = load_members st in
      if df_empty members then (Warning ''No members registered.'', st)
      else
        (case best_match V ''temp_entry.jpg'' (rows members) of
           Some matched_row \<Rightarrow>
             let attendance = load_attendance st;
                 idstr = str_int (ID matched_row);
                 exists = df_filter (same_day idstr today) attendance
             in if \<not> df_empty exists then (Warning ''Entry already marked today.'', st)
                else
                  let new_entry = \<lparr>att_ID = idstr, att_Name = Name matched_row, Date = today,
                                   EntryTime = now_time, ExitTime = Some [], Status = ''Present''\<rparr>
                  in (Success (''Entry marked for '' @ py_str (Name matched_row)),
                      save_attendance
                        (pd_concat attendance (Frame attendance_columns [new_entry])) st)
         | None \<Rightarrow> (Error ''No matching member found.'', st)))"

definition open_row :: "string \<Rightarrow> string \<Rightarrow> attendance \<Rightarrow> bool" where
  "open_row idstr today r \<longleftrightarrow>
     same_day idstr today r \<and> (ExitTime r = None \<or> ExitTime r = Some [])"

text \<open>\<open>open_rows.index[0]\<close>: the position of the first row the mask selects.\<close>

fun first_index :: "('a \<Rightarrow> bool) \<Rightarrow> 'a list \<Rightarrow> nat option" where
  "first_index P [] = None"
| "first_index P (x # xs) = (if P x then Some 0 else map_option Suc (first_index P xs))"

text \<open>
  Line 251 writes the text of the time into the \<open>ExitTime\<close> column of the frame that
  was read. Where that column is a column of numbers, pandas from version 3 on raises
  \<open>TypeError\<close> there, before anything is saved.
\<close>

definition mark_exit :: "verifier \<Rightarrow> string \<Rightarrow> string \<Rightarrow> gym \<Rightarrow> message \<times> gym" where
  "mark_exit V today now_time st =
     (let members = load_members st in
      if df_empty members then (Warning ''No members registered.'', st)
      else
        (case best_match V ''temp_exit.jpg'' (rows members) of
           Some matched_row \<Rightarrow>
             let attendance = load_attendance st;
                 idstr = str_int (ID matched_row);
                 open_rows = df_filter (open_row idstr today) attendance
             in if df_empty open_rows then (Warning ''No open entry found for today.'', st)
                else
                  (case first_index (open_row idstr today) (rows attendance) of
                     None \<Rightarrow> (Raised IndexError, st)
                   | Some idx \<Rightarrow>
                       if exit_time_is_float attendance \<and> 3 \<le> pandas_major st
                       then (Raised TypeError, st)
                       else
                         (Success (''Exit marked for '' @ py_str (Name matched_row)),
                          save_attendance
                            (Frame (columns attendance)
                               ((rows attendance)
                                  [idx := (rows attendance ! idx)\<lparr>ExitTime := Some now_time,
                                                                   Status := ''Exited''\<rparr>])) st))
         | None \<Rightarrow> (Error ''No matching member found.'', st)))"

subsection \<open>Reset DB\<close>

text \<open>
  Lines 287-292: each of the three files is rewritten from \<open>pd.DataFrame()\<close>, and
  every file of \<open>member_images\<close> is removed.
\<close>

definition reset_db :: "gym \<Rightarrow> message \<times> gym" where
  "reset_db st =
     (Success ''All data reset successfully!'',
      st\<lparr>members_csv := empty_frame_csv, attendance_csv := empty_frame_csv,
         deleted_members_csv := empty_frame_csv, member_images := Map.empty\<rparr>)"

subsection \<open>The selection rule as the specification words it\<close>

text \<open>
  "The first member in enumeration order whose distance is the minimum among all
  candidates with matched = true": no candidate, no selection.
\<close>

definition spec_first_min_matched :: "verifier \<Rightarrow> string \<Rightarrow> member list \<Rightarrow> member option" where
  "spec_first_min_matched V img_path members =
     (let candidates = filter (reports_match V img_path) members
      in find (\<lambda>m. reports_match V img_path m \<and>
                    list_all (\<lambda>c. reported_distance V img_path m \<le> reported_distance V img_path c)
                      candidates) members)"

subsection \<open>Sequences of registrations\<close>

type_synonym registration = "string \<times> string \<times> string \<times> string \<times> int \<times> image option"

fun register_all :: "registration list \<Rightarrow> gym \<Rightarrow> gym" where
  "register_all [] st = st"
| "register_all ((name, email, mobile, membership, fee, photo) # rs) st =
     register_all rs (snd (register_member name email mobile membership fee photo st))"

text \<open>The number of attempts of a sequence that are answered with a success.\<close>

fun registered :: "registration list \<Rightarrow> gym \<Rightarrow> nat" where
  "registered [] st = 0"
| "registered ((name, email, mobile, membership, fee, photo) # rs) st =
     (case register_member name email mobile membership fee photo st of
        (Success _, st') \<Rightarrow> Suc (registered rs st')
      | (_, st') \<Rightarrow> registered rs st')"

subsection \<open>Sample data\<close>

definition alice :: member where
  "alice = \<lparr>ID = 1, Name = Some ''Alice'', Email = Some ''alice@example.org'',
            Mobile = Some ''+91 5551'', Membership = ''Monthly'', Fee = 0,
            ImagePath = ''member_images/1_Alice.jpg''\<rparr>"

definition bob :: member where
  "bob = \<lparr>ID = 2, Name = Some ''Bob'', Email = Some ''bob@example.org'',
          Mobile = Some ''+91 5552'', Membership = ''Yearly'', Fee = 900,
          ImagePath = ''member_images/2_Bob.jpg''\<rparr>"

definition carol :: member where
  "carol = \<lparr>ID = 3, Name = Some ''Carol'', Email = Some ''carol@example.org'',
            Mobile = Some ''+91 5553'', Membership = ''Quarterly'', Fee = 300,
            ImagePath = ''member_images/3_Carol.jpg''\<rparr>"

text \<open>A verifier that reports a match at exactly the distance 1.0 for every pair.\<close>

definition verifier_far :: verifier where
  "verifier_far img1 img2 = Some \<lparr>verified = True, distance = Some 1\<rparr>"

text \<open>A verifier that matches Alice at 0.4, Bob and Carol at 0.2, and raises otherwise.\<close>

definition verifier_near :: verifier where
  "verifier_near img1 img2 =
     (if img2 = ''member_images/1_Alice.jpg'' then Some \<lparr>verified = True, distance = Some (2 / 5)\<rparr>
      else if img2 = ''member_images/2_Bob.jpg'' then Some \<lparr>verified = True, distance = Some (1 / 5)\<rparr>
      else if img2 = ''member_images/3_Carol.jpg'' then Some \<lparr>verified = True, distance = Some (1 / 5)\<rparr>
      else None)"

text \<open>
  A reader that takes an empty cell for a missing value and every other text as it is
  written, which is what \<open>pd.read_csv\<close> does on the sample data; and one that also takes
  \<open>NA\<close> for a missing value and reads a column of digit strings as numbers, so that
  leading zeros are lost.
\<close>

definition plain_text :: "string list \<Rightarrow> string \<Rightarrow> cell" where
  "plain_text column t = (if t = [] then None else Some t)"

definition inferring_text :: "string list \<Rightarrow> string \<Rightarrow> cell" where
  "inferring_text column t =
     (if t = [] \<or> t = ''NA'' then None
      else if list_all (\<lambda>c. c = [] \<or> c = ''NA'' \<or> list_all (\<lambda>d. d \<in> set ''0123456789'') c) column
      then (case dropWhile (\<lambda>d. d = CHR ''0'') t of [] \<Rightarrow> Some ''0'' | d # ds \<Rightarrow> Some (d # ds))
      else Some t)"

text \<open>
  An installation with pandas 3, the given members and attendance rows, and the archive
  file as the setup block creates it.
\<close>

definition gym_of :: "member list \<Rightarrow> attendance list \<Rightarrow> gym" where
  "gym_of ms att =
     \<lparr>read_text = plain_text, pandas_major = 3,
      members_csv = Frame members_columns ms, attendance_csv = Frame attendance_columns att,
      deleted_members_csv = empty_frame_csv,
      member_images = map_of (map (\<lambda>m. (ImagePath m, Image (py_str (Name m)))) ms), outbox = []\<rparr>"

definition bob_present :: attendance where
  "bob_present = \<lparr>att_ID = ''2'', att_Name = Some ''Bob'', Date = ''2026-01-05'',
                  EntryTime = ''07:30:00'', ExitTime = None, Status = ''Present''\<rparr>"

definition alice_exited :: attendance where
  "alice_exited = \<lparr>att_ID = ''1'', att_Name = Some ''Alice'', Date = ''2026-01-05'',
                   EntryTime = ''06:00:00'', ExitTime = Some ''06:45:00'', Status = ''Exited''\<rparr>"

text \<open>
  The state after the setup block at the top of the script on a new installation with
  pandas 3: the three files are created from \<open>pd.DataFrame()\<close> and \<open>member_images\<close>
  is empty.
\<close>

definition fresh :: gym where
  "fresh = \<lparr>read_text = plain_text, pandas_major = 3,
            members_csv = empty_frame_csv, attendance_csv = empty_frame_csv,
            deleted_members_csv = empty_frame_csv, member_images = Map.empty, outbox = []\<rparr>"

text \<open>
  Five registration forms: the second has no email address, the third a name with a
  slash.
\<close>

definition sample_registrations :: "registration list" where
  "sample_registrations =
     [(''Alice'', ''alice@example.org'', ''+91 5551'', ''Monthly'', 0, Some (Image ''Alice'')),
      (''Dora'', [], ''+91 5554'', ''Monthly'', 100, Some (Image ''Dora'')),
      (''S/O Ram'', ''ram@example.org'', ''+91 5550'', ''Monthly'', 100, Some (Image ''Ram'')),
      (''Bob'', ''bob@example.org'', ''+91 5552'', ''Yearly'', 900, Some (Image ''Bob'')),
      (''Carol'', ''carol@example.org'', ''+91 5553'', ''Quarterly'', 300, Some (Image ''Carol''))]"

text \<open>
  A new installation after its first registration; the same after Alice's first entry;
  and an installation whose archive file has a header row after two registrations, the
  deletion of member 1 and a third registration.
\<close>

definition first_member_gym :: gym where
  "first_member_gym =
     snd (register_member ''Alice'' ''alice@example.org'' ''+91 5551'' ''Monthly'' 0
            (Some (Image ''Alice'')) fresh)"

definition first_entry_gym :: gym where
  "first_entry_gym = snd (mark_entry verifier_near ''2026-01-05'' ''08:00:00'' first_member_gym)"

definition reused_id_gym :: gym where
  "reused_id_gym =
     snd (register_member ''Carol'' ''carol@example.org'' ''+91 5553'' ''Quarterly'' 300
            (Some (Image ''Carol''))
       (snd (delete_member 1
          (register_all
             [(''Alice'', ''alice@example.org'', ''+91 5551'', ''Monthly'', 0, Some (Image ''Alice'')),
              (''Bob'', ''bob@example.org'', ''+91 5552'', ''Yearly'', 900, Some (Image ''Bob''))]
             (fresh\<lparr>deleted_members_csv := Frame members_columns []\<rparr>)))))"

section \<open>Properties\<close>

subsection \<open>Files and loaders\<close>

lemma columns_nonempty [simp]: "members_columns \<noteq> []" "attendance_columns \<noteq> []"
  by (simp_all add: members_columns_def attendance_columns_def)

lemma read_csv_empty_frame [simp]: "read_csv parse_rows empty_frame_csv = Inl EmptyDataError"
  by (simp add: read_csv_def empty_frame_csv_def)

lemma read_csv_Frame [simp]:
  "cols \<noteq> [] \<Longrightarrow> read_csv parse_rows (Frame cols df) = Inr (Frame cols (parse_rows df))"
  by (simp add: read_csv_def)

lemma columns_load_members [simp]: "columns (load_members st) \<noteq> []"
  by (simp add: load_members_def read_csv_def)

lemma columns_load_attendance [simp]: "columns (load_attendance st) \<noteq> []"
  by (simp add: load_attendance_def read_csv_def)

lemma df_empty_load_members [simp]:
  "df_empty (load_members st) \<longleftrightarrow> rows (load_members st) = []"
  by (simp add: df_empty_def)

lemma df_empty_filter_loaded [simp]:
  "df_empty (df_filter keep (load_attendance st)) \<longleftrightarrow>
     filter keep (rows (load_attendance st)) = []"
  "df_empty (df_filter keep' (load_members st)) \<longleftrightarrow>
     filter keep' (rows (load_members st)) = []"
  by (simp_all add: df_empty_def df_filter_def)

lemma length_parse_members [simp]: "length (parse_members parse df) = length df"
  by (simp add: parse_members_def)

lemma map_ID_parse_members [simp]: "map ID (parse_members parse df) = map ID df"
  by (simp add: parse_members_def)

lemma parse_members_Nil [simp]: "parse_members parse [] = []"
  by (simp add: parse_members_def)

lemma parse_attendance_Nil [simp]: "parse_attendance parse [] = []"
  by (simp add: parse_attendance_def)

lemma load_members_readable:
  "columns (members_csv st) \<noteq> [] \<Longrightarrow>
   load_members st =
     Frame (columns (members_csv st)) (parse_members (read_text st) (rows (members_csv st)))"
  by (simp add: load_members_def read_csv_def)

lemma load_members_unreadable:
  "columns (members_csv st) = [] \<Longrightarrow> load_members st = Frame members_columns []"
  by (simp add: load_members_def read_csv_def)

lemma load_attendance_readable:
  "columns (attendance_csv st) \<noteq> [] \<Longrightarrow>
   load_attendance st =
     Frame (columns (attendance_csv st))
       (parse_attendance (read_text st) (rows (attendance_csv st)))"
  by (simp add: load_attendance_def read_csv_def)

lemma load_attendance_unreadable:
  "columns (attendance_csv st) = [] \<Longrightarrow> load_attendance st = Frame attendance_columns []"
  by (simp add: load_attendance_def read_csv_def)

lemma load_members_frame [simp]:
  "load_members (save_attendance df st) = load_members st"
  "load_members (send_email to subject st) = load_members st"
  "load_members (st\<lparr>deleted_members_csv := f\<rparr>) = load_members st"
  "load_members (st\<lparr>member_images := imgs\<rparr>) = load_members st"
  by (simp_all add: load_members_def save_attendance_def send_email_def)

lemma load_attendance_frame [simp]:
  "load_attendance (save_members df' st) = load_attendance st"
  "load_attendance (send_email to subject st) = load_attendance st"
  by (simp_all add: load_attendance_def save_members_def send_email_def)

lemma load_members_save_members [simp]:
  "columns df \<noteq> [] \<Longrightarrow>
   load_members (save_members df st) = Frame (columns df) (parse_members (read_text st) (rows df))"
  by (simp add: load_members_def save_members_def read_csv_def)

lemma load_attendance_save_attendance [simp]:
  "columns df \<noteq> [] \<Longrightarrow>
   load_attendance (save_attendance df st) =
     Frame (columns df) (parse_attendance (read_text st) (rows df))"
  by (simp add: load_attendance_def save_attendance_def read_csv_def)

lemma unchanged_by_saving [simp]:
  "read_text (save_members df st) = read_text st"
  "read_text (save_attendance df' st) = read_text st"
  "read_text (send_email to subject st) = read_text st"
  "pandas_major (save_attendance df' st) = pandas_major st"
  "pandas_major (save_members df st) = pandas_major st"
  "pandas_major (send_email to subject st) = pandas_major st"
  "deleted_members_csv (save_members df st) = deleted_members_csv st"
  "deleted_members_csv (send_email to subject st) = deleted_members_csv st"
  "attendance_csv (save_members df st) = attendance_csv st"
  "attendance_csv (send_email to subject st) = attendance_csv st"
  "members_csv (save_members df st) = df"
  "members_csv (send_email to subject st) = members_csv st"
  "members_csv (save_attendance df' st) = members_csv st"
  "attendance_csv (save_attendance df' st) = df'"
  "member_images (save_members df st) = member_images st"
  "member_images (send_email to subject st) = member_images st"
  by (simp_all add: save_members_def save_attendance_def send_email_def)

lemma columns_pd_concat [simp]: "columns a \<noteq> [] \<Longrightarrow> columns (pd_concat a b) \<noteq> []"
  by (simp add: pd_concat_def)

lemma rows_pd_concat [simp]: "rows (pd_concat a b) = rows a @ rows b"
  by (simp add: pd_concat_def)

lemma pd_concat_same_columns [simp]:
  "pd_concat (Frame cols xs) (Frame cols ys) = Frame cols (xs @ ys)"
  by (simp add: pd_concat_def)

lemma df_empty_Frame [simp]: "df_empty (Frame cols xs) \<longleftrightarrow> xs = [] \<or> cols = []"
  by (simp add: df_empty_def)

lemma df_filter_Frame [simp]: "df_filter keep (Frame cols xs) = Frame cols (filter keep xs)"
  by (simp add: df_filter_def)

text \<open>The sample installations.\<close>

lemma parse_sample_members [simp]:
  "parse_members plain_text [alice] = [alice]"
  "parse_members plain_text [alice, bob] = [alice, bob]"
  "parse_members plain_text [alice, bob, carol] = [alice, bob, carol]"
  by (simp_all add: parse_members_def plain_text_def to_csv_text_def alice_def bob_def carol_def)

lemma parse_sample_attendance [simp]:
  "parse_attendance plain_text [alice_exited] = [alice_exited]"
  "parse_attendance plain_text [alice_exited, bob_present] = [alice_exited, bob_present]"
  by (simp_all add: parse_attendance_def plain_text_def to_csv_text_def
      alice_exited_def bob_present_def)

lemma sample_attendance_fields [simp]:
  "att_ID bob_present = ''2''" "Date bob_present = ''2026-01-05''" "ExitTime bob_present = None"
  "att_ID alice_exited = ''1''" "Date alice_exited = ''2026-01-05''"
  "ExitTime alice_exited = Some ''06:45:00''"
  by (simp_all add: bob_present_def alice_exited_def)

lemma load_members_gym_of [simp]:
  "load_members (gym_of ms att) = Frame members_columns (parse_members plain_text ms)"
  by (simp add: load_members_def gym_of_def)

lemma load_attendance_gym_of [simp]:
  "load_attendance (gym_of ms att) = Frame attendance_columns (parse_attendance plain_text att)"
  by (simp add: load_attendance_def gym_of_def)

lemma pandas_major_gym_of [simp]: "pandas_major (gym_of ms att) = 3"
  by (simp add: gym_of_def)

lemma fresh_fields [simp]:
  "read_text fresh = plain_text" "pandas_major fresh = 3"
  "members_csv fresh = empty_frame_csv" "attendance_csv fresh = empty_frame_csv"
  "deleted_members_csv fresh = empty_frame_csv" "member_images fresh = Map.empty"
  "outbox fresh = []"
  by (simp_all add: fresh_def)

lemma load_members_fresh [simp]: "load_members fresh = Frame members_columns []"
  by (simp add: load_members_def fresh_def)

lemma load_attendance_fresh [simp]: "load_attendance fresh = Frame attendance_columns []"
  by (simp add: load_attendance_def fresh_def)

subsection \<open>The scan\<close>

lemma scan_members_Nil: "scan_members V p acc [] = acc"
  by simp

lemma scan_members_Cons:
  "scan_members V p (sel, best) (row # ms) =
     scan_members V p
       (if reports_match V p row \<and> reported_distance V p row < best
        then (Some row, reported_distance V p row) else (sel, best)) ms"
  by (simp add: reports_match_def reported_distance_def split: prod.splits)

declare scan_members.simps [simp del]

lemma scan_members_unchanged:
  "\<forall>x\<in>set ms. \<not> (reports_match V p x \<and> reported_distance V p x < best) \<Longrightarrow>
   scan_members V p (sel, best) ms = (sel, best)"
  by (induction ms) (auto simp: scan_members_Cons scan_members_Nil)

lemma scan_members_selects:
  "\<exists>x\<in>set ms. reports_match V p x \<and> reported_distance V p x < best \<Longrightarrow>
   \<exists>pre m post. ms = pre @ m # post \<and>
     scan_members V p (sel, best) ms = (Some m, reported_distance V p m) \<and>
     reports_match V p m \<and> reported_distance V p m < best \<and>
     (\<forall>x\<in>set pre. reports_match V p x \<longrightarrow> reported_distance V p m < reported_distance V p x) \<and>
     (\<forall>x\<in>set post. reports_match V p x \<longrightarrow> reported_distance V p m \<le> reported_distance V p x)"
proof (induction ms arbitrary: sel best)
  case Nil
  then show ?case by simp
next
  case (Cons row ms)
  let ?d = "reported_distance V p"
  let ?m = "reports_match V p"
  show ?case
  proof (cases "?m row \<and> ?d row < best")
    case take: True
    show ?thesis
    proof (cases "\<exists>x\<in>set ms. ?m x \<and> ?d x < ?d row")
      case True
      from Cons.IH [OF True, of "Some row"] obtain pre m post where
        h: "ms = pre @ m # post"
           "scan_members V p (Some row, ?d row) ms = (Some m, ?d m)"
           "?m m" "?d m < ?d row"
           "\<forall>x\<in>set pre. ?m x \<longrightarrow> ?d m < ?d x"
           "\<forall>x\<in>set post. ?m x \<longrightarrow> ?d m \<le> ?d x"
        by blast
      have "row # ms = (row # pre) @ m # post" using h(1) by simp
      moreover have "scan_members V p (sel, best) (row # ms) = (Some m, ?d m)"
        using take h(2) by (simp add: scan_members_Cons)
      moreover have "?d m < best" using h(4) take by linarith
      moreover have "\<forall>x\<in>set (row # pre). ?m x \<longrightarrow> ?d m < ?d x" using h(4,5) by simp
      ultimately show ?thesis using h(3,6) by blast
    next
      case False
      then have "scan_members V p (Some row, ?d row) ms = (Some row, ?d row)"
        by (intro scan_members_unchanged) blast
      then have "scan_members V p (sel, best) (row # ms) = (Some row, ?d row)"
        using take by (simp add: scan_members_Cons)
      moreover have "row # ms = [] @ row # ms" by simp
      moreover have "\<forall>x\<in>set ms. ?m x \<longrightarrow> ?d row \<le> ?d x" using False by force
      ultimately show ?thesis using take by (metis empty_iff empty_set)
    qed
  next
    case skip: False
    then have ex: "\<exists>x\<in>set ms. ?m x \<and> ?d x < best" using Cons.prems by auto
    from Cons.IH [OF ex, of sel] obtain pre m post where
      h: "ms = pre @ m # post"
         "scan_members V p (sel, best) ms = (Some m, ?d m)"
         "?m m" "?d m < best"
         "\<forall>x\<in>set pre. ?m x \<longrightarrow> ?d m < ?d x"
         "\<forall>x\<in>set post. ?m x \<longrightarrow> ?d m \<le> ?d x"
      by blast
    have "row # ms = (row # pre) @ m # post" using h(1) by simp
    moreover have "scan_members V p (sel, best) (row # ms) = (Some m, ?d m)"
      using skip h(2) by (auto simp: scan_members_Cons)
    moreover have "\<forall>x\<in>set (row # pre). ?m x \<longrightarrow> ?d m < ?d x" using h(4,5) skip by auto
    ultimately show ?thesis using h(3,4,6) by blast
  qed
qed

lemma best_match_None_iff:
  "best_match V p ms = None \<longleftrightarrow>
     (\<forall>x\<in>set ms. \<not> (reports_match V p x \<and> reported_distance V p x < 1))"
proof
  assume none: "best_match V p ms = None"
  show "\<forall>x\<in>set ms. \<not> (reports_match V p x \<and> reported_distance V p x < 1)"
  proof (rule ccontr)
    assume "\<not> ?thesis"
    then have "\<exists>x\<in>set ms. reports_match V p x \<and> reported_distance V p x < 1" by blast
    from scan_members_selects [OF this, of None] none show False
      by (auto simp: best_match_def)
  qed
next
  assume "\<forall>x\<in>set ms. \<not> (reports_match V p x \<and> reported_distance V p x < 1)"
  from scan_members_unchanged [OF this, of None] show "best_match V p ms = None"
    by (simp add: best_match_def)
qed

lemma best_match_Some_near:
  assumes "best_match V p ms = Some m"
  shows "m \<in> set ms \<and> reports_match V p m \<and> reported_distance V p m < 1"
proof -
  have "\<exists>x\<in>set ms. reports_match V p x \<and> reported_distance V p x < 1"
    using assms best_match_None_iff [of V p ms] by auto
  from scan_members_selects [OF this, of None] assms show ?thesis
    by (auto simp: best_match_def)
qed

text \<open>The sample verifiers on the sample members.\<close>

lemma verifier_far_reports [simp]:
  "reports_match verifier_far p m" "reported_distance verifier_far p m = 1"
  by (simp_all add: reports_match_def reported_distance_def try_verify_faces_def verifier_far_def)

lemma verifier_near_reports [simp]:
  "reports_match verifier_near p alice" "reported_distance verifier_near p alice = 2 / 5"
  "reports_match verifier_near p bob" "reported_distance verifier_near p bob = 1 / 5"
  "reports_match verifier_near p carol" "reported_distance verifier_near p carol = 1 / 5"
  by (simp_all add: reports_match_def reported_distance_def try_verify_faces_def
      verifier_near_def alice_def bob_def carol_def)

lemma sample_members_distinct [simp]:
  "alice \<noteq> bob" "alice \<noteq> carol" "bob \<noteq> carol" "bob \<noteq> alice" "carol \<noteq> alice" "carol \<noteq> bob"
  by (simp_all add: alice_def bob_def carol_def)

lemma best_match_sample [simp]:
  "best_match verifier_near p [alice, bob, carol] = Some bob"
  "best_match verifier_near p [alice, bob] = Some bob"
  "best_match verifier_near p [alice] = Some alice"
  "best_match verifier_far p [alice] = None"
  by (simp_all add: best_match_def scan_members_Cons scan_members_Nil)

subsection \<open>Sample values and the first selected row\<close>

lemma str_int_sample [simp]: "str_int 1 = ''1''" "str_int 2 = ''2''" "str_int 3 = ''3''"
  by (simp_all add: str_int_def str_nat.simps digit_char_def)

lemma sample_fields [simp]:
  "ID alice = 1" "ID bob = 2" "ID carol = 3"
  "Name alice = Some ''Alice''" "Name bob = Some ''Bob''" "Name carol = Some ''Carol''"
  by (simp_all add: alice_def bob_def carol_def)

lemma py_str_Some [simp]: "py_str (Some s) = s"
  by (simp add: py_str_def)

lemma first_index_None_iff: "first_index P xs = None \<longleftrightarrow> (\<forall>x\<in>set xs. \<not> P x)"
  by (induction xs) auto

lemma first_index_Some:
  "first_index P xs = Some i \<Longrightarrow>
   \<exists>pre r post. xs = pre @ r # post \<and> length pre = i \<and> P r \<and> (\<forall>x\<in>set pre. \<not> P x)"
proof (induction xs arbitrary: i)
  case Nil
  then show ?case by simp
next
  case (Cons x xs)
  show ?case
  proof (cases "P x")
    case True
    then have "i = 0" using Cons.prems by simp
    then have "x # xs = [] @ x # xs \<and> length ([]::'a list) = i" by simp
    then show ?thesis using True by (metis empty_iff empty_set)
  next
    case False
    then obtain j where j: "first_index P xs = Some j" "i = Suc j"
      using Cons.prems by auto
    from Cons.IH [OF j(1)] obtain pre r post where
      h: "xs = pre @ r # post" "length pre = j" "P r" "\<forall>x\<in>set pre. \<not> P x"
      by blast
    have "x # xs = (x # pre) @ r # post" using h(1) by simp
    moreover have "length (x # pre) = i" using h(2) j(2) by simp
    moreover have "\<forall>y\<in>set (x # pre). \<not> P y" using h(4) False by simp
    ultimately show ?thesis using h(3) by blast
  qed
qed

lemma first_index_skip:
  "(\<forall>x\<in>set pre. \<not> P x) \<Longrightarrow> \<not> P r \<Longrightarrow> (\<forall>x\<in>set post. \<not> P x) \<Longrightarrow>
   first_index P (pre @ r # post) = None"
  by (auto simp: first_index_None_iff)

subsection \<open>The text of an id\<close>

text \<open>
  \<open>str\<close> gives different integers different texts, so comparing the \<open>ID\<close> column as
  text with \<open>idstr\<close> compares the ids.
\<close>

lemma digit_char_cases:
  "d < 10 \<Longrightarrow> d = 0 \<or> d = 1 \<or> d = 2 \<or> d = 3 \<or> d = 4 \<or> d = 5 \<or> d = 6 \<or> d = 7 \<or> d = 8 \<or> d = (9::nat)"
  by arith

lemma digit_char_inj:
  assumes "d < 10" "e < 10" "digit_char d = digit_char e"
  shows "d = e"
  using digit_char_cases [OF assms(1)] digit_char_cases [OF assms(2)] assms(3)
  by (elim disjE) (simp_all add: digit_char_def)

lemma digit_char_not_minus:
  assumes "d < 10"
  shows "digit_char d \<noteq> CHR ''-''"
  using digit_char_cases [OF assms] by (elim disjE) (simp_all add: digit_char_def)

lemma str_nat_nonempty: "str_nat n \<noteq> []"
  by (subst str_nat.simps) simp

lemma str_nat_inj: "str_nat n = str_nat m \<Longrightarrow> n = m"
proof (induction n arbitrary: m rule: str_nat.induct)
  case (1 n)
  show ?case
  proof (cases "n < 10")
    case small: True
    show ?thesis
    proof (cases "m < 10")
      case True
      then have "digit_char n = digit_char m"
        using "1.prems" small by (simp add: str_nat.simps [of n] str_nat.simps [of m])
      then show ?thesis using small True by (rule digit_char_inj [rotated 2])
    next
      case False
      then have "[digit_char n] = str_nat (m div 10) @ [digit_char (m mod 10)]"
        using "1.prems" small by (simp add: str_nat.simps [of n] str_nat.simps [of m])
      then show ?thesis using str_nat_nonempty [of "m div 10"] by simp
    qed
  next
    case big: False
    show ?thesis
    proof (cases "m < 10")
      case True
      then have "str_nat (n div 10) @ [digit_char (n mod 10)] = [digit_char m]"
        using "1.prems" big by (simp add: str_nat.simps [of n] str_nat.simps [of m])
      then show ?thesis using str_nat_nonempty [of "n div 10"] by simp
    next
      case False
      then have eq: "str_nat (n div 10) @ [digit_char (n mod 10)] =
                     str_nat (m div 10) @ [digit_char (m mod 10)]"
        using "1.prems" big by (simp add: str_nat.simps [of n] str_nat.simps [of m])
      then have "str_nat (n div 10) = str_nat (m div 10)" by simp
      then have q: "n div 10 = m div 10" using "1.IH" big by blast
      from eq have "digit_char (n mod 10) = digit_char (m mod 10)" by simp
      then have r: "n mod 10 = m mod 10" by (intro digit_char_inj) simp_all
      show ?thesis using q r by (metis div_mult_mod_eq)
    qed
  qed
qed

lemma str_nat_no_sign: "hd (str_nat n) \<noteq> CHR ''-''"
proof (induction n rule: str_nat.induct)
  case (1 n)
  show ?case
  proof (cases "n < 10")
    case True
    then show ?thesis by (simp add: str_nat.simps [of n] digit_char_not_minus)
  next
    case False
    then show ?thesis
      using "1.IH" str_nat_nonempty [of "n div 10"] by (simp add: str_nat.simps [of n])
  qed
qed

lemma str_int_inj: "str_int a = str_int b \<longleftrightarrow> a = b"
proof
  assume eq: "str_int a = str_int b"
  have sign: "CHR ''-'' # s \<noteq> str_nat n" for s n
    using str_nat_no_sign [of n] by (metis list.sel(1))
  show "a = b"
  proof (cases "a < 0"; cases "b < 0")
    assume "a < 0" "b < 0"
    then have "str_nat (nat (- a)) = str_nat (nat (- b))" using eq by (simp add: str_int_def)
    then have "nat (- a) = nat (- b)" by (rule str_nat_inj)
    then show ?thesis using \<open>a < 0\<close> \<open>b < 0\<close> by simp
  next
    assume "a < 0" "\<not> b < 0"
    then show ?thesis using eq sign by (simp add: str_int_def)
  next
    assume "\<not> a < 0" "b < 0"
    then show ?thesis using eq sign [of "str_nat (nat (- b))" "nat a"] by (simp add: str_int_def)
  next
    assume "\<not> a < 0" "\<not> b < 0"
    then have "str_nat (nat a) = str_nat (nat b)" using eq by (simp add: str_int_def)
    then have "nat a = nat b" by (rule str_nat_inj)
    then show ?thesis using \<open>\<not> a < 0\<close> \<open>\<not> b < 0\<close> by simp
  qed
qed simp

subsection \<open>Claims about the scan\<close>

text \<open>
  C1, as stated, at a concrete input: Alice is the only member and the verifier reports
  a match at distance 1.0. She is the first member with the minimum distance among the
  matched candidates, and the scan selects nobody.
\<close>

theorem best_match_skips_sentinel_distance:
  "best_match verifier_far ''temp_entry.jpg'' [alice] = None \<and>
   spec_first_min_matched verifier_far ''temp_entry.jpg'' [alice] = Some alice"
  by (simp add: spec_first_min_matched_def)

text \<open>
  C1 (amended): for every member list and every verifier, if some member is reported
  matched at a distance below 1.0, the scan of \<open>mark_entry\<close> and \<open>mark_exit\<close> selects
  the first member in enumeration order whose distance is the minimum among all matched
  candidates: every matched member before it is strictly farther, every matched member
  after it is at least as far (a tie does not replace it). If every matched member is at
  distance 1.0 or more, nobody is selected.
\<close>

theorem best_match_first_minimum:
  "((\<exists>x\<in>set ms. reports_match V p x \<and> reported_distance V p x < 1) \<longrightarrow>
      (\<exists>pre m post. ms = pre @ m # post \<and> best_match V p ms = Some m \<and>
         reports_match V p m \<and> reported_distance V p m < 1 \<and>
         (\<forall>x\<in>set pre. reports_match V p x \<longrightarrow> reported_distance V p m < reported_distance V p x) \<and>
         (\<forall>x\<in>set post. reports_match V p x \<longrightarrow> reported_distance V p m \<le> reported_distance V p x))) \<and>
   ((\<forall>x\<in>set ms. reports_match V p x \<longrightarrow> 1 \<le> reported_distance V p x) \<longrightarrow>
      best_match V p ms = None)"
proof (intro conjI impI)
  assume ex: "\<exists>x\<in>set ms. reports_match V p x \<and> reported_distance V p x < 1"
  from scan_members_selects [OF ex, of None] obtain pre m post where
    "ms = pre @ m # post"
    "scan_members V p (None, 1) ms = (Some m, reported_distance V p m)"
    "reports_match V p m" "reported_distance V p m < 1"
    "\<forall>x\<in>set pre. reports_match V p x \<longrightarrow> reported_distance V p m < reported_distance V p x"
    "\<forall>x\<in>set post. reports_match V p x \<longrightarrow> reported_distance V p m \<le> reported_distance V p x"
    by blast
  moreover from this(2) have "best_match V p ms = Some m" by (simp add: best_match_def)
  ultimately show "\<exists>pre m post. ms = pre @ m # post \<and> best_match V p ms = Some m \<and>
         reports_match V p m \<and> reported_distance V p m < 1 \<and>
         (\<forall>x\<in>set pre. reports_match V p x \<longrightarrow> reported_distance V p m < reported_distance V p x) \<and>
         (\<forall>x\<in>set post. reports_match V p x \<longrightarrow> reported_distance V p m \<le> reported_distance V p x)"
    by blast
next
  assume "\<forall>x\<in>set ms. reports_match V p x \<longrightarrow> 1 \<le> reported_distance V p x"
  then have "\<forall>x\<in>set ms. \<not> (reports_match V p x \<and> reported_distance V p x < 1)" by force
  then show "best_match V p ms = None" by (simp add: best_match_None_iff)
qed

text \<open>
  Alice at 0.4, Bob and Carol both at 0.2: Bob, the earlier of the two, is selected.
  With the verifier that reports 1.0, nobody is.
\<close>

theorem best_match_first_minimum_witness:
  "(\<exists>x\<in>set [alice, bob, carol].
      reports_match verifier_near ''temp_entry.jpg'' x \<and>
      reported_distance verifier_near ''temp_entry.jpg'' x < 1) \<and>
   best_match verifier_near ''temp_entry.jpg'' [alice, bob, carol] = Some bob \<and>
   (\<exists>pre m post. [alice, bob, carol] = pre @ m # post \<and>
      best_match verifier_near ''temp_entry.jpg'' [alice, bob, carol] = Some m \<and>
      (\<forall>x\<in>set pre. reports_match verifier_near ''temp_entry.jpg'' x \<longrightarrow>
         reported_distance verifier_near ''temp_entry.jpg'' m
           < reported_distance verifier_near ''temp_entry.jpg'' x) \<and>
      (\<forall>x\<in>set post. reports_match verifier_near ''temp_entry.jpg'' x \<longrightarrow>
         reported_distance verifier_near ''temp_entry.jpg'' m
           \<le> reported_distance verifier_near ''temp_entry.jpg'' x)) \<and>
   reports_match verifier_far ''temp_exit.jpg'' alice \<and>
   reported_distance verifier_far ''temp_exit.jpg'' alice = 1 \<and>
   best_match verifier_far ''temp_exit.jpg'' [alice] = None"
proof -
  have h: "\<exists>x\<in>set [alice, bob, carol].
      reports_match verifier_near ''temp_entry.jpg'' x \<and>
      reported_distance verifier_near ''temp_entry.jpg'' x < 1"
    by simp
  have k: "\<forall>x\<in>set [alice]. reports_match verifier_far ''temp_exit.jpg'' x \<longrightarrow>
      1 \<le> reported_distance verifier_far ''temp_exit.jpg'' x"
    by simp
  from best_match_first_minimum [of "[alice, bob, carol]" verifier_near "''temp_entry.jpg''"] h
  have "\<exists>pre m post. [alice, bob, carol] = pre @ m # post \<and>
      best_match verifier_near ''temp_entry.jpg'' [alice, bob, carol] = Some m \<and>
      (\<forall>x\<in>set pre. reports_match verifier_near ''temp_entry.jpg'' x \<longrightarrow>
         reported_distance verifier_near ''temp_entry.jpg'' m
           < reported_distance verifier_near ''temp_entry.jpg'' x) \<and>
      (\<forall>x\<in>set post. reports_match verifier_near ''temp_entry.jpg'' x \<longrightarrow>
         reported_distance verifier_near ''temp_entry.jpg'' m
           \<le> reported_distance verifier_near ''temp_entry.jpg'' x)"
    by blast
  moreover from best_match_first_minimum [of "[alice]" verifier_far "''temp_exit.jpg''"] k
  have "best_match verifier_far ''temp_exit.jpg'' [alice] = None" by blast
  moreover have "best_match verifier_near ''temp_entry.jpg'' [alice, bob, carol] = Some bob"
    by simp
  ultimately show ?thesis using h by simp
qed

text \<open>
  C9: a member reported matched at a distance of 1.0 or more is never the selected
  member; and when every matched member is at 1.0 or more, \<open>mark_entry\<close> and
  \<open>mark_exit\<close> both answer "No matching member found." and change nothing.
\<close>

theorem sentinel_distance_never_selected:
  "(reports_match V p m \<and> 1 \<le> reported_distance V p m \<longrightarrow> best_match V p ms \<noteq> Some m) \<and>
   (rows (load_members st) \<noteq> [] \<and>
    (\<forall>x\<in>set (rows (load_members st)).
       reports_match V ''temp_entry.jpg'' x \<longrightarrow> 1 \<le> reported_distance V ''temp_entry.jpg'' x) \<longrightarrow>
    mark_entry V today now_time st = (Error ''No matching member found.'', st)) \<and>
   (rows (load_members st) \<noteq> [] \<and>
    (\<forall>x\<in>set (rows (load_members st)).
       reports_match V ''temp_exit.jpg'' x \<longrightarrow> 1 \<le> reported_distance V ''temp_exit.jpg'' x) \<longrightarrow>
    mark_exit V today now_time st = (Error ''No matching member found.'', st))"
proof (intro conjI impI)
  assume "reports_match V p m \<and> 1 \<le> reported_distance V p m"
  then show "best_match V p ms \<noteq> Some m"
    using best_match_Some_near [of V p ms m] by auto
next
  assume a: "rows (load_members st) \<noteq> [] \<and>
    (\<forall>x\<in>set (rows (load_members st)).
       reports_match V ''temp_entry.jpg'' x \<longrightarrow> 1 \<le> reported_distance V ''temp_entry.jpg'' x)"
  then have "best_match V ''temp_entry.jpg'' (rows (load_members st)) = None"
    by (subst best_match_None_iff) force
  then show "mark_entry V today now_time st = (Error ''No matching member found.'', st)"
    using a by (simp add: mark_entry_def)
next
  assume a: "rows (load_members st) \<noteq> [] \<and>
    (\<forall>x\<in>set (rows (load_members st)).
       reports_match V ''temp_exit.jpg'' x \<longrightarrow> 1 \<le> reported_distance V ''temp_exit.jpg'' x)"
  then have "best_match V ''temp_exit.jpg'' (rows (load_members st)) = None"
    by (subst best_match_None_iff) force
  then show "mark_exit V today now_time st = (Error ''No matching member found.'', st)"
    using a by (simp add: mark_exit_def)
qed

theorem sentinel_distance_never_selected_witness:
  "reports_match verifier_far ''temp_entry.jpg'' alice \<and>
   1 \<le> reported_distance verifier_far ''temp_entry.jpg'' alice \<and>
   best_match verifier_far ''temp_entry.jpg'' [alice] \<noteq> Some alice \<and>
   rows (load_members (gym_of [alice] [])) = [alice] \<and>
   reports_match verifier_far ''temp_exit.jpg'' alice \<and>
   1 \<le> reported_distance verifier_far ''temp_exit.jpg'' alice \<and>
   mark_entry verifier_far ''2026-01-05'' ''08:00:00'' (gym_of [alice] []) =
     (Error ''No matching member found.'', gym_of [alice] []) \<and>
   mark_exit verifier_far ''2026-01-05'' ''08:00:00'' (gym_of [alice] []) =
     (Error ''No matching member found.'', gym_of [alice] [])"
  using sentinel_distance_never_selected
    [of verifier_far "''temp_entry.jpg''" alice "[alice]" "gym_of [alice] []"
        "''2026-01-05''" "''08:00:00''"]
  by simp

subsection \<open>Claims about Attendance: Entry\<close>

text \<open>
  C2, as stated, at a concrete input: Alice is the only member and is reported matched
  (at distance 1.0), and \<open>mark_entry\<close> answers "No matching member found.".
\<close>

theorem mark_entry_far_match_counterexample:
  "reports_match verifier_far ''temp_entry.jpg'' alice \<and>
   fst (mark_entry verifier_far ''2026-01-05'' ''08:00:00'' (gym_of [alice] [])) =
     Error ''No matching member found.''"
  by (simp add: mark_entry_def Let_def)

text \<open>
  C2 (amended): for every non-empty member list, \<open>mark_entry\<close> answers "No matching
  member found." if and only if no member is reported matched at a distance below 1.0.
  Whenever some member is, the best-matching member is taken and the operation goes on
  to the attendance step: it either warns that the entry is already marked or appends
  the new record of that member.
\<close>

theorem mark_entry_no_match_iff:
  assumes "rows (load_members st) \<noteq> []"
  shows "(fst (mark_entry V today now_time st) = Error ''No matching member found.'' \<longleftrightarrow>
          (\<forall>m\<in>set (rows (load_members st)).
             \<not> (reports_match V ''temp_entry.jpg'' m \<and> reported_distance V ''temp_entry.jpg'' m < 1))) \<and>
         ((\<exists>m\<in>set (rows (load_members st)).
             reports_match V ''temp_entry.jpg'' m \<and> reported_distance V ''temp_entry.jpg'' m < 1) \<longrightarrow>
          (\<exists>m. best_match V ''temp_entry.jpg'' (rows (load_members st)) = Some m \<and>
             (mark_entry V today now_time st = (Warning ''Entry already marked today.'', st) \<or>
              mark_entry V today now_time st =
                (Success (''Entry marked for '' @ py_str (Name m)),
                 save_attendance
                   (pd_concat (load_attendance st)
                      (Frame attendance_columns
                         [\<lparr>att_ID = str_int (ID m), att_Name = Name m, Date = today,
                           EntryTime = now_time, ExitTime = Some [], Status = ''Present''\<rparr>])) st))))"
proof (cases "best_match V ''temp_entry.jpg'' (rows (load_members st))")
  case None
  then have "fst (mark_entry V today now_time st) = Error ''No matching member found.''"
    using assms by (simp add: mark_entry_def)
  then show ?thesis using None best_match_None_iff [of V "''temp_entry.jpg''" "rows (load_members st)"]
    by simp
next
  case (Some m)
  then have "fst (mark_entry V today now_time st) \<noteq> Error ''No matching member found.''"
    using assms by (simp add: mark_entry_def Let_def)
  moreover have "mark_entry V today now_time st = (Warning ''Entry already marked today.'', st) \<or>
              mark_entry V today now_time st =
                (Success (''Entry marked for '' @ py_str (Name m)),
                 save_attendance
                   (pd_concat (load_attendance st)
                      (Frame attendance_columns
                         [\<lparr>att_ID = str_int (ID m), att_Name = Name m, Date = today,
                           EntryTime = now_time, ExitTime = Some [], Status = ''Present''\<rparr>])) st)"
    using assms Some by (simp add: mark_entry_def Let_def)
  ultimately show ?thesis
    using Some best_match_None_iff [of V "''temp_entry.jpg''" "rows (load_members st)"] by auto
qed

text \<open>Alice and Bob are members, nobody has entered yet, and Bob is the best match.\<close>

theorem mark_entry_no_match_iff_witness:
  "rows (load_members (gym_of [alice, bob] [])) = [alice, bob] \<and>
   reports_match verifier_near ''temp_entry.jpg'' bob \<and>
   reported_distance verifier_near ''temp_entry.jpg'' bob < 1 \<and>
   fst (mark_entry verifier_near ''2026-01-05'' ''08:00:00'' (gym_of [alice, bob] [])) \<noteq>
     Error ''No matching member found.'' \<and>
   mark_entry verifier_near ''2026-01-05'' ''08:00:00'' (gym_of [alice, bob] []) =
     (Success ''Entry marked for Bob'',
      save_attendance
        (Frame attendance_columns
           [\<lparr>att_ID = ''2'', att_Name = Some ''Bob'', Date = ''2026-01-05'',
             EntryTime = ''08:00:00'', ExitTime = Some [], Status = ''Present''\<rparr>])
        (gym_of [alice, bob] []))"
proof -
  have ne: "rows (load_members (gym_of [alice, bob] [])) \<noteq> []" by simp
  have ex: "\<exists>m\<in>set (rows (load_members (gym_of [alice, bob] []))).
      reports_match verifier_near ''temp_entry.jpg'' m \<and>
      reported_distance verifier_near ''temp_entry.jpg'' m < 1"
    by simp
  from mark_entry_no_match_iff [OF ne, of verifier_near "''2026-01-05''" "''08:00:00''"] ex
  have "fst (mark_entry verifier_near ''2026-01-05'' ''08:00:00'' (gym_of [alice, bob] [])) \<noteq>
     Error ''No matching member found.''"
    by blast
  moreover have "mark_entry verifier_near ''2026-01-05'' ''08:00:00'' (gym_of [alice, bob] []) =
     (Success ''Entry marked for Bob'',
      save_attendance
        (Frame attendance_columns
           [\<lparr>att_ID = ''2'', att_Name = Some ''Bob'', Date = ''2026-01-05'',
             EntryTime = ''08:00:00'', ExitTime = Some [], Status = ''Present''\<rparr>])
        (gym_of [alice, bob] []))"
    by (simp add: mark_entry_def Let_def)
  ultimately show ?thesis by simp
qed

text \<open>
  C3: when the attendance table already holds a record whose id is the matched member's
  and whose date is today, \<open>mark_entry\<close> answers "Entry already marked today." and
  returns the state it was given: no file is written, so no record is appended and none
  is modified.
\<close>

theorem mark_entry_already_marked:
  assumes "best_match V ''temp_entry.jpg'' (rows (load_members st)) = Some m"
    and "\<exists>r\<in>set (rows (load_attendance st)). att_ID r = str_int (ID m) \<and> Date r = today"
  shows "mark_entry V today now_time st = (Warning ''Entry already marked today.'', st)"
proof -
  have ne: "rows (load_members st) \<noteq> []"
    using best_match_Some_near [OF assms(1)] by auto
  have "filter (same_day (str_int (ID m)) today) (rows (load_attendance st)) \<noteq> []"
    using assms(2) by (auto simp: filter_empty_conv same_day_def)
  then show ?thesis using ne assms(1) by (simp add: mark_entry_def Let_def)
qed

theorem mark_entry_already_marked_witness:
  "best_match verifier_near ''temp_entry.jpg''
     (rows (load_members (gym_of [alice, bob] [alice_exited, bob_present]))) = Some bob \<and>
   (\<exists>r\<in>set (rows (load_attendance (gym_of [alice, bob] [alice_exited, bob_present]))).
      att_ID r = str_int (ID bob) \<and> Date r = ''2026-01-05'') \<and>
   mark_entry verifier_near ''2026-01-05'' ''09:15:00'' (gym_of [alice, bob] [alice_exited, bob_present]) =
     (Warning ''Entry already marked today.'', gym_of [alice, bob] [alice_exited, bob_present])"
proof -
  have a: "best_match verifier_near ''temp_entry.jpg''
             (rows (load_members (gym_of [alice, bob] [alice_exited, bob_present]))) = Some bob"
    by simp
  have b: "\<exists>r\<in>set (rows (load_attendance (gym_of [alice, bob] [alice_exited, bob_present]))).
      att_ID r = str_int (ID bob) \<and> Date r = ''2026-01-05''"
    by simp
  from mark_entry_already_marked [OF a b] a b show ?thesis by blast
qed

subsection \<open>Claims about Attendance: Exit\<close>

lemma open_row_parse_attendance:
  "(\<forall>x\<in>set (parse_attendance parse df). \<not> open_row idstr today x) \<longleftrightarrow>
   (\<forall>x\<in>set df. \<not> open_row idstr today x)"
  by (auto simp: parse_attendance_def open_row_def same_day_def to_csv_text_def
      split: option.splits if_splits)

text \<open>
  Where the write of line 251 does not raise (the \<open>ExitTime\<close> column that was read is a
  column of texts, or pandas is older than version 3): if the table has no open row of
  the matched member for today, \<open>mark_exit\<close> answers "No open entry found for today."
  and returns the state it was given. Otherwise the table splits at its first open row;
  \<open>mark_exit\<close> saves the table with that one row's \<open>ExitTime\<close> set to the current time
  and its \<open>Status\<close> to "Exited", every other row and field as it was read, and no
  other file is touched. If the rows after it hold no further open row, a second
  \<open>mark_exit\<close> the same day finds no open entry.
\<close>

lemma mark_exit_marks_first_open_row:
  assumes "best_match V ''temp_exit.jpg'' (rows (load_members st)) = Some m"
  shows "((\<forall>r\<in>set (rows (load_attendance st)). \<not> open_row (str_int (ID m)) today r) \<longrightarrow>
            mark_exit V today now_time st = (Warning ''No open entry found for today.'', st)) \<and>
         ((\<exists>r\<in>set (rows (load_attendance st)). open_row (str_int (ID m)) today r) \<and>
          \<not> (exit_time_is_float (load_attendance st) \<and> 3 \<le> pandas_major st) \<longrightarrow>
            (\<exists>pre r post.
               rows (load_attendance st) = pre @ r # post \<and>
               (\<forall>x\<in>set pre. \<not> open_row (str_int (ID m)) today x) \<and>
               open_row (str_int (ID m)) today r \<and>
               mark_exit V today now_time st =
                 (Success (''Exit marked for '' @ py_str (Name m)),
                  save_attendance
                    (Frame (columns (load_attendance st))
                       (pre @ r\<lparr>ExitTime := Some now_time, Status := ''Exited''\<rparr> # post)) st) \<and>
               (now_time \<noteq> [] \<and> (\<forall>x\<in>set post. \<not> open_row (str_int (ID m)) today x) \<longrightarrow>
                  mark_exit V today later (snd (mark_exit V today now_time st)) =
                    (Warning ''No open entry found for today.'',
                     snd (mark_exit V today now_time st)))))"
proof (intro conjI impI)
  have ne: "rows (load_members st) \<noteq> []"
    using best_match_Some_near [OF assms] by auto
  let ?open = "open_row (str_int (ID m)) today"
  let ?att = "load_attendance st"
  {
    assume "\<forall>r\<in>set (rows ?att). \<not> ?open r"
    then have "filter ?open (rows ?att) = []"
      by (simp add: filter_empty_conv)
    then show "mark_exit V today now_time st = (Warning ''No open entry found for today.'', st)"
      using ne assms by (simp add: mark_exit_def Let_def)
  }
  {
    assume a: "(\<exists>r\<in>set (rows ?att). ?open r) \<and>
               \<not> (exit_time_is_float ?att \<and> 3 \<le> pandas_major st)"
    then have some: "filter ?open (rows ?att) \<noteq> []"
      by (auto simp: filter_empty_conv)
    from a obtain idx where idx: "first_index ?open (rows ?att) = Some idx"
      using first_index_None_iff [of ?open "rows ?att"] by fastforce
    from first_index_Some [OF idx] obtain pre r post where
      h: "rows ?att = pre @ r # post" "length pre = idx" "?open r"
         "\<forall>x\<in>set pre. \<not> ?open x"
      by blast
    let ?r' = "r\<lparr>ExitTime := Some now_time, Status := ''Exited''\<rparr>"
    let ?st' = "save_attendance (Frame (columns ?att) (pre @ ?r' # post)) st"
    have upd: "(rows ?att)[idx := (rows ?att ! idx)\<lparr>ExitTime := Some now_time,
                 Status := ''Exited''\<rparr>] = pre @ ?r' # post"
      using h(2) unfolding h(1) by (auto simp: list_update_append nth_append)
    have res: "mark_exit V today now_time st =
                 (Success (''Exit marked for '' @ py_str (Name m)), ?st')"
      using ne assms idx upd some a by (simp add: mark_exit_def Let_def)
    have again: "mark_exit V today later (snd (mark_exit V today now_time st)) =
                    (Warning ''No open entry found for today.'',
                     snd (mark_exit V today now_time st))"
      if "now_time \<noteq> [] \<and> (\<forall>x\<in>set post. \<not> ?open x)"
    proof -
      have "\<not> ?open ?r'" using that by (simp add: open_row_def)
      then have "\<forall>x\<in>set (pre @ ?r' # post). \<not> ?open x"
        using h(4) that by auto
      then have "\<forall>x\<in>set (parse_attendance (read_text st) (pre @ ?r' # post)). \<not> ?open x"
        by (simp only: open_row_parse_attendance)
      then have "filter ?open (rows (load_attendance ?st')) = []"
        by (simp add: filter_empty_conv)
      moreover have "load_members ?st' = load_members st" by simp
      ultimately have "mark_exit V today later ?st' =
                         (Warning ''No open entry found for today.'', ?st')"
        using ne assms by (simp add: mark_exit_def Let_def)
      then show ?thesis using res by simp
    qed
    show "\<exists>pre r post.
               rows ?att = pre @ r # post \<and>
               (\<forall>x\<in>set pre. \<not> ?open x) \<and> ?open r \<and>
               mark_exit V today now_time st =
                 (Success (''Exit marked for '' @ py_str (Name m)),
                  save_attendance
                    (Frame (columns ?att)
                       (pre @ r\<lparr>ExitTime := Some now_time, Status := ''Exited''\<rparr> # post)) st) \<and>
               (now_time \<noteq> [] \<and> (\<forall>x\<in>set post. \<not> ?open x) \<longrightarrow>
                  mark_exit V today later (snd (mark_exit V today now_time st)) =
                    (Warning ''No open entry found for today.'',
                     snd (mark_exit V today now_time st)))"
      using h(1,3,4) res again by blast
  }
qed

text \<open>Bob entered today and Alice has already left, so the column holds a text.\<close>

lemma mark_exit_sample:
  "mark_exit verifier_near ''2026-01-05'' ''09:30:00'' (gym_of [alice, bob] [alice_exited, bob_present]) =
     (Success ''Exit marked for Bob'',
      save_attendance
        (Frame attendance_columns
           [alice_exited, bob_present\<lparr>ExitTime := Some ''09:30:00'', Status := ''Exited''\<rparr>])
        (gym_of [alice, bob] [alice_exited, bob_present]))"
  by (simp add: mark_exit_def Let_def open_row_def same_day_def exit_time_is_float_def)

lemma first_member_gym_state:
  "load_members first_member_gym = Frame members_columns [alice]"
  "attendance_csv first_member_gym = empty_frame_csv"
  "deleted_members_csv first_member_gym = empty_frame_csv"
  "read_text first_member_gym = plain_text"
  "pandas_major first_member_gym = 3"
  by (simp_all add: first_member_gym_def register_member_def Let_def img_save_error_def
      replace_space_def alice_def parse_members_def plain_text_def to_csv_text_def)

lemma first_entry_gym_state:
  "fst (mark_entry verifier_near ''2026-01-05'' ''08:00:00'' first_member_gym) =
     Success ''Entry marked for Alice''"
  "first_entry_gym =
     save_attendance
       (Frame attendance_columns
          [\<lparr>att_ID = ''1'', att_Name = Some ''Alice'', Date = ''2026-01-05'',
            EntryTime = ''08:00:00'', ExitTime = Some [], Status = ''Present''\<rparr>])
       first_member_gym"
  by (simp_all add: first_entry_gym_def mark_entry_def Let_def first_member_gym_state
      load_attendance_unreadable empty_frame_csv_def)

text \<open>
  C4, on a new installation with pandas 3 after Alice's registration and her first
  entry: the attendance file holds her one row with an empty exit time, which is read
  back as a missing value in a column of numbers. \<open>mark_exit\<close> finds the open row, the
  write of the time raises \<open>TypeError\<close>, and nothing is saved: the row stays open.
\<close>

theorem mark_exit_after_first_entry_raises:
  "fst (mark_entry verifier_near ''2026-01-05'' ''08:00:00'' first_member_gym) =
     Success ''Entry marked for Alice'' \<and>
   rows (load_attendance first_entry_gym) =
     [\<lparr>att_ID = ''1'', att_Name = Some ''Alice'', Date = ''2026-01-05'',
       EntryTime = ''08:00:00'', ExitTime = None, Status = ''Present''\<rparr>] \<and>
   best_match verifier_near ''temp_exit.jpg'' (rows (load_members first_entry_gym)) = Some alice \<and>
   mark_exit verifier_near ''2026-01-05'' ''09:30:00'' first_entry_gym =
     (Raised TypeError, first_entry_gym)"
proof -
  let ?row = "\<lparr>att_ID = ''1'', att_Name = Some ''Alice'', Date = ''2026-01-05'',
       EntryTime = ''08:00:00'', ExitTime = None, Status = ''Present''\<rparr>"
  have att: "load_attendance first_entry_gym = Frame attendance_columns [?row]"
    by (simp add: first_entry_gym_state(2) first_member_gym_state parse_attendance_def
        plain_text_def to_csv_text_def)
  have mem: "load_members first_entry_gym = Frame members_columns [alice]"
    by (simp add: first_entry_gym_state(2) first_member_gym_state)
  have ver: "pandas_major first_entry_gym = 3"
    by (simp add: first_entry_gym_state(2) first_member_gym_state)
  have "mark_exit verifier_near ''2026-01-05'' ''09:30:00'' first_entry_gym =
          (Raised TypeError, first_entry_gym)"
    by (simp add: mark_exit_def Let_def att mem ver open_row_def same_day_def
        exit_time_is_float_def)
  then show ?thesis using first_entry_gym_state(1) att mem by simp
qed

subsection \<open>Registration\<close>

lemma new_id_count [simp]:
  "(if \<not> df_empty (load_members st) then int (length (rows (load_members st))) + 1 else 1) =
     int (length (rows (load_members st))) + 1"
  by simp

lemma register_member_incomplete:
  "\<not> (name \<noteq> [] \<and> email \<noteq> [] \<and> mobile \<noteq> [] \<and> membership \<noteq> [] \<and> photo \<noteq> None) \<Longrightarrow>
   register_member name email mobile membership fee photo st =
     (Warning ''Please fill all fields and capture image.'', st)"
  by (simp add: register_member_def)

lemma register_member_unsaved:
  "name \<noteq> [] \<and> email \<noteq> [] \<and> mobile \<noteq> [] \<and> membership \<noteq> [] \<and> photo \<noteq> None \<Longrightarrow>
   img_save_error (str_int (int (length (rows (load_members st))) + 1) @ ''_'' @
                   replace_space name @ ''.jpg'') = Some e \<Longrightarrow>
   register_member name email mobile membership fee photo st = (Raised e, st)"
  by (simp add: register_member_def Let_def del: df_empty_load_members)

lemma register_member_saved:
  "name \<noteq> [] \<and> email \<noteq> [] \<and> mobile \<noteq> [] \<and> membership \<noteq> [] \<and> photo \<noteq> None \<Longrightarrow>
   img_save_error (str_int (int (length (rows (load_members st))) + 1) @ ''_'' @
                   replace_space name @ ''.jpg'') = None \<Longrightarrow>
   register_member name email mobile membership fee photo st =
     (Success (''Member Registered! ID: '' @ str_int (int (length (rows (load_members st))) + 1)),
      send_email (Some email) ''Gym Registration Successful''
        (save_members
           (pd_concat (load_members st)
              (Frame members_columns
                 [\<lparr>ID = int (length (rows (load_members st))) + 1, Name = Some name,
                   Email = Some email, Mobile = Some mobile, Membership = membership, Fee = fee,
                   ImagePath = ''member_images/'' @
                     str_int (int (length (rows (load_members st))) + 1) @ ''_'' @
                     replace_space name @ ''.jpg''\<rparr>]))
           (st\<lparr>member_images := (member_images st)
                  (''member_images/'' @ str_int (int (length (rows (load_members st))) + 1) @ ''_'' @
                   replace_space name @ ''.jpg'' := photo)\<rparr>)))"
  by (simp add: register_member_def Let_def del: df_empty_load_members)

lemma register_member_not_success:
  assumes "\<not> (\<exists>s. fst (register_member name email mobile membership fee photo st) = Success s)"
  shows "snd (register_member name email mobile membership fee photo st) = st"
proof (cases "name \<noteq> [] \<and> email \<noteq> [] \<and> mobile \<noteq> [] \<and> membership \<noteq> [] \<and> photo \<noteq> None")
  case False
  then show ?thesis by (simp add: register_member_incomplete)
next
  case True
  show ?thesis
  proof (cases "img_save_error (str_int (int (length (rows (load_members st))) + 1) @ ''_'' @
                   replace_space name @ ''.jpg'')")
    case None
    then show ?thesis using assms by (simp add: register_member_saved [OF True None])
  next
    case (Some e)
    then show ?thesis by (simp add: register_member_unsaved [OF True Some])
  qed
qed

lemma register_member_success:
  assumes "fst (register_member name email mobile membership fee photo st) = Success s"
  shows "name \<noteq> [] \<and> email \<noteq> [] \<and> mobile \<noteq> [] \<and> membership \<noteq> [] \<and> photo \<noteq> None"
    and "img_save_error (str_int (int (length (rows (load_members st))) + 1) @ ''_'' @
                   replace_space name @ ''.jpg'') = None"
proof -
  show c: "name \<noteq> [] \<and> email \<noteq> [] \<and> mobile \<noteq> [] \<and> membership \<noteq> [] \<and> photo \<noteq> None"
    using assms register_member_incomplete [of name email mobile membership photo fee st]
    by (cases "name \<noteq> [] \<and> email \<noteq> [] \<and> mobile \<noteq> [] \<and> membership \<noteq> [] \<and> photo \<noteq> None") auto
  show "img_save_error (str_int (int (length (rows (load_members st))) + 1) @ ''_'' @
                   replace_space name @ ''.jpg'') = None"
  proof (rule ccontr)
    assume "\<not> ?thesis"
    then obtain e where "img_save_error (str_int (int (length (rows (load_members st))) + 1) @ ''_'' @
                   replace_space name @ ''.jpg'') = Some e"
      by auto
    then show False using assms by (simp add: register_member_unsaved [OF c])
  qed
qed

lemma register_member_appends:
  assumes "fst (register_member name email mobile membership fee photo st) = Success s"
  shows "\<exists>new. members_csv (snd (register_member name email mobile membership fee photo st)) =
                 pd_concat (load_members st) (Frame members_columns [new]) \<and>
               ID new = int (length (rows (load_members st))) + 1 \<and>
               map ID (rows (load_members (snd (register_member name email mobile membership fee photo st)))) =
                 map ID (rows (load_members st)) @ [int (length (rows (load_members st))) + 1]"
proof -
  let ?new = "\<lparr>ID = int (length (rows (load_members st))) + 1, Name = Some name,
                Email = Some email, Mobile = Some mobile, Membership = membership, Fee = fee,
                ImagePath = ''member_images/'' @
                  str_int (int (length (rows (load_members st))) + 1) @ ''_'' @
                  replace_space name @ ''.jpg''\<rparr>"
  note saved = register_member_saved [OF register_member_success [OF assms]]
  have "members_csv (snd (register_member name email mobile membership fee photo st)) =
          pd_concat (load_members st) (Frame members_columns [?new])"
    by (simp add: saved)
  moreover have "ID ?new = int (length (rows (load_members st))) + 1" by simp
  moreover have
    "map ID (rows (load_members (snd (register_member name email mobile membership fee photo st)))) =
       map ID (rows (load_members st)) @ [int (length (rows (load_members st))) + 1]"
    by (simp add: saved)
  ultimately show ?thesis by blast
qed

lemma upto_from_one_append:
  "[1 .. int k] @ [int k + 1 .. int k + int n] = [1 .. int k + int n]"
proof (induction n)
  case 0
  then show ?case by simp
next
  case (Suc n)
  have "[int k + 1 .. int k + int (Suc n)] = [int k + 1 .. int k + int n] @ [int k + int n + 1]"
    by (simp add: upto_rec2 add.assoc)
  moreover have "[1 .. int k + int (Suc n)] = [1 .. int k + int n] @ [int k + int n + 1]"
    by (simp add: upto_rec2 add.assoc)
  ultimately show ?case using Suc by simp
qed

lemma register_all_ids:
  "map ID (rows (load_members (register_all rs st))) =
     map ID (rows (load_members st)) @
     [int (length (rows (load_members st))) + 1 ..
      int (length (rows (load_members st))) + int (registered rs st)]"
proof (induction rs arbitrary: st)
  case Nil
  then show ?case by simp
next
  case (Cons r rs)
  obtain name email mobile membership fee photo where
    r: "r = (name, email, mobile, membership, fee, photo)"
    by (cases r) auto
  let ?res = "register_member name email mobile membership fee photo st"
  let ?st1 = "snd ?res"
  let ?n = "int (length (rows (load_members st)))"
  show ?case
  proof (cases "\<exists>s. fst ?res = Success s")
    case True
    then obtain s where s: "fst ?res = Success s" by blast
    obtain msg st1 where res: "?res = (msg, st1)" by (cases ?res)
    from register_member_appends [OF s]
    have ids: "map ID (rows (load_members ?st1)) = map ID (rows (load_members st)) @ [?n + 1]"
      by blast
    then have "length (map ID (rows (load_members ?st1))) = length (rows (load_members st)) + 1"
      by simp
    then have len: "int (length (rows (load_members ?st1))) = ?n + 1" by simp
    have cnt: "registered (r # rs) st = Suc (registered rs ?st1)"
      using s by (simp add: r res)
    have "map ID (rows (load_members (register_all (r # rs) st))) =
            map ID (rows (load_members ?st1)) @
            [?n + 1 + 1 .. ?n + 1 + int (registered rs ?st1)]"
      using Cons.IH [of ?st1] by (simp add: r len)
    also have "\<dots> = map ID (rows (load_members st)) @
            ([?n + 1] @ [?n + 1 + 1 .. ?n + 1 + int (registered rs ?st1)])"
      by (simp add: ids)
    also have "[?n + 1] @ [?n + 1 + 1 .. ?n + 1 + int (registered rs ?st1)] =
                 [?n + 1 .. ?n + int (registered (r # rs) st)]"
      by (simp add: cnt upto_rec1 algebra_simps)
    finally show ?thesis .
  next
    case False
    then have same: "?st1 = st" by (rule register_member_not_success)
    obtain msg st1 where res: "?res = (msg, st1)" by (cases ?res)
    have cnt: "registered (r # rs) st = registered rs st"
      using False same by (cases msg) (simp_all add: r res)
    show ?thesis using Cons.IH [of st] same cnt by (simp add: r)
  qed
qed

text \<open>
  The sample forms on a new installation: the first, the fourth and the fifth are
  registered.
\<close>

lemma registered_sample: "registered sample_registrations fresh = 3"
  by (simp add: sample_registrations_def register_member_def Let_def img_save_error_def
      replace_space_def parse_members_def plain_text_def to_csv_text_def)

text \<open>
  What is written is the form as it was typed; what the next run reads is what
  \<open>pd.read_csv\<close> makes of it.
\<close>

lemma load_members_reads_anew:
  "rows (members_csv (snd (register_member ''NA'' ''na@example.org'' ''0555'' ''Monthly'' 100
                             (Some (Image ''NA'')) (fresh\<lparr>read_text := inferring_text\<rparr>)))) =
     [\<lparr>ID = 1, Name = Some ''NA'', Email = Some ''na@example.org'', Mobile = Some ''0555'',
       Membership = ''Monthly'', Fee = 100, ImagePath = ''member_images/1_NA.jpg''\<rparr>]"
  "rows (load_members (snd (register_member ''NA'' ''na@example.org'' ''0555'' ''Monthly'' 100
                              (Some (Image ''NA'')) (fresh\<lparr>read_text := inferring_text\<rparr>)))) =
     [\<lparr>ID = 1, Name = None, Email = Some ''na@example.org'', Mobile = Some ''555'',
       Membership = ''Monthly'', Fee = 100, ImagePath = ''member_images/1_NA.jpg''\<rparr>]"
  by (simp_all add: register_member_def Let_def img_save_error_def replace_space_def
      load_members_def empty_frame_csv_def read_csv_def save_members_def send_email_def
      pd_concat_def parse_members_def inferring_text_def to_csv_text_def df_empty_def)

subsection \<open>Claims about Register Member\<close>

text \<open>
  C5: a registration that succeeds writes the table that was read with one new row
  whose id is the number of existing members plus one, and a registration attempt that
  does not succeed leaves the state as it was. Hence, from a member table whose ids
  are 1, ..., k in table order (the empty table of a new installation in particular)
  and with no deletion in between, any sequence of registration attempts leaves the ids
  1, ..., k + n in table order, n being the number of attempts that succeeded: each
  assigned id is the previous one plus one, and the ids are pairwise different.
\<close>

theorem register_ids_count_up:
  "((\<exists>s. fst (register_member name email mobile membership fee photo st) = Success s) \<longrightarrow>
      (\<exists>new. members_csv (snd (register_member name email mobile membership fee photo st)) =
                pd_concat (load_members st) (Frame members_columns [new]) \<and>
              ID new = int (length (rows (load_members st))) + 1 \<and>
              map ID (rows (load_members
                             (snd (register_member name email mobile membership fee photo st)))) =
                map ID (rows (load_members st)) @ [int (length (rows (load_members st))) + 1])) \<and>
   (\<not> (\<exists>s. fst (register_member name email mobile membership fee photo st) = Success s) \<longrightarrow>
      snd (register_member name email mobile membership fee photo st) = st) \<and>
   (map ID (rows (load_members st)) = [1 .. int (length (rows (load_members st)))] \<longrightarrow>
      map ID (rows (load_members (register_all rs st))) =
        [1 .. int (length (rows (load_members st))) + int (registered rs st)] \<and>
      distinct (map ID (rows (load_members (register_all rs st)))))"
proof (intro conjI impI)
  assume "\<exists>s. fst (register_member name email mobile membership fee photo st) = Success s"
  then obtain s where "fst (register_member name email mobile membership fee photo st) = Success s"
    by blast
  from register_member_appends [OF this]
  show "\<exists>new. members_csv (snd (register_member name email mobile membership fee photo st)) =
                pd_concat (load_members st) (Frame members_columns [new]) \<and>
              ID new = int (length (rows (load_members st))) + 1 \<and>
              map ID (rows (load_members
                             (snd (register_member name email mobile membership fee photo st)))) =
                map ID (rows (load_members st)) @ [int (length (rows (load_members st))) + 1]" .
next
  assume "\<not> (\<exists>s. fst (register_member name email mobile membership fee photo st) = Success s)"
  then show "snd (register_member name email mobile membership fee photo st) = st"
    by (rule register_member_not_success)
next
  assume e: "map ID (rows (load_members st)) = [1 .. int (length (rows (load_members st)))]"
  show ids: "map ID (rows (load_members (register_all rs st))) =
        [1 .. int (length (rows (load_members st))) + int (registered rs st)]"
    using register_all_ids [of rs st] e upto_from_one_append by simp
  show "distinct (map ID (rows (load_members (register_all rs st))))"
    unfolding ids by simp
qed

theorem register_ids_count_up_witness:
  "rows (load_members fresh) = [] \<and>
   registered sample_registrations fresh = 3 \<and>
   map ID (rows (load_members (register_all sample_registrations fresh))) = [1, 2, 3] \<and>
   distinct (map ID (rows (load_members (register_all sample_registrations fresh)))) \<and>
   fst (register_member ''Bob'' ''bob@example.org'' ''+91 5552'' ''Yearly'' 900
          (Some (Image ''Bob'')) (gym_of [alice] [])) = Success ''Member Registered! ID: 2'' \<and>
   map ID (rows (load_members
                  (snd (register_member ''Bob'' ''bob@example.org'' ''+91 5552'' ''Yearly'' 900
                          (Some (Image ''Bob'')) (gym_of [alice] []))))) = [1, 2] \<and>
   fst (register_member ''S/O Ram'' ''ram@example.org'' ''+91 5550'' ''Monthly'' 100
          (Some (Image ''Ram'')) (gym_of [alice] [])) = Raised OSError \<and>
   snd (register_member ''S/O Ram'' ''ram@example.org'' ''+91 5550'' ''Monthly'' 100
          (Some (Image ''Ram'')) (gym_of [alice] [])) = gym_of [alice] []"
proof -
  have e: "map ID (rows (load_members fresh)) = [1 .. int (length (rows (load_members fresh)))]"
    by simp
  have u: "[1 .. 3::int] = [1, 2, 3]" by (simp add: upto_rec1)
  have bob: "fst (register_member ''Bob'' ''bob@example.org'' ''+91 5552'' ''Yearly'' 900
          (Some (Image ''Bob'')) (gym_of [alice] [])) = Success ''Member Registered! ID: 2''"
    by (simp add: register_member_def Let_def img_save_error_def replace_space_def)
  have ram: "fst (register_member ''S/O Ram'' ''ram@example.org'' ''+91 5550'' ''Monthly'' 100
          (Some (Image ''Ram'')) (gym_of [alice] [])) = Raised OSError"
    by (simp add: register_member_def Let_def img_save_error_def replace_space_def)
  have ex: "\<exists>s. fst (register_member ''Bob'' ''bob@example.org'' ''+91 5552'' ''Yearly'' 900
          (Some (Image ''Bob'')) (gym_of [alice] [])) = Success s"
    using bob by simp
  from register_ids_count_up
    [of "''Bob''" "''bob@example.org''" "''+91 5552''" "''Yearly''" 900 "Some (Image ''Bob'')"
        "gym_of [alice] []" sample_registrations] ex
  have "map ID (rows (load_members
                  (snd (register_member ''Bob'' ''bob@example.org'' ''+91 5552'' ''Yearly'' 900
                          (Some (Image ''Bob'')) (gym_of [alice] []))))) =
          map ID (rows (load_members (gym_of [alice] []))) @
          [int (length (rows (load_members (gym_of [alice] [])))) + 1]"
    by blast
  then have a: "map ID (rows (load_members
                  (snd (register_member ''Bob'' ''bob@example.org'' ''+91 5552'' ''Yearly'' 900
                          (Some (Image ''Bob'')) (gym_of [alice] []))))) = [1, 2]"
    by simp
  have nex: "\<not> (\<exists>s. fst (register_member ''S/O Ram'' ''ram@example.org'' ''+91 5550'' ''Monthly'' 100
          (Some (Image ''Ram'')) (gym_of [alice] [])) = Success s)"
    using ram by simp
  from register_ids_count_up
    [of "''S/O Ram''" "''ram@example.org''" "''+91 5550''" "''Monthly''" 100 "Some (Image ''Ram'')"
        "gym_of [alice] []" sample_registrations] nex
  have b: "snd (register_member ''S/O Ram'' ''ram@example.org'' ''+91 5550'' ''Monthly'' 100
          (Some (Image ''Ram'')) (gym_of [alice] [])) = gym_of [alice] []"
    by blast
  from register_ids_count_up
    [of "''Bob''" "''bob@example.org''" "''+91 5552''" "''Yearly''" 900 "Some (Image ''Bob'')"
        fresh sample_registrations] e
  have "map ID (rows (load_members (register_all sample_registrations fresh))) = [1, 2, 3] \<and>
        distinct (map ID (rows (load_members (register_all sample_registrations fresh))))"
    by (simp add: registered_sample u)
  then show ?thesis using a b bob ram registered_sample by simp
qed




subsection \<open>Deletion\<close>

lemma delete_member_attendance:
  "attendance_csv (snd (delete_member selected_id st)) = attendance_csv st"
  "read_text (snd (delete_member selected_id st)) = read_text st"
  by (simp_all add: delete_member_def Let_def save_members_def send_email_def
      split: list.splits sum.splits)

text \<open>
  Where the selected id belongs to one row only and the archive file has a header, the
  Delete button writes the member table without that row, the other rows as they were
  read, and the archive as it was read with the row at its end.
\<close>

lemma delete_member_unique:
  assumes "filter (\<lambda>m. ID m = ID x) (rows (load_members st)) = [x]"
    and "columns (deleted_members_csv st) \<noteq> []"
  shows "fst (delete_member (ID x) st) = Success ''Member deleted successfully.''"
    and "members_csv (snd (delete_member (ID x) st)) =
           Frame (columns (load_members st)) (filter (\<lambda>m. m \<noteq> x) (rows (load_members st)))"
    and "rows (deleted_members_csv (snd (delete_member (ID x) st))) =
           parse_members (read_text st) (rows (deleted_members_csv st)) @ [x]"
proof -
  have ne: "rows (load_members st) \<noteq> []" using assms(1) by auto
  have same: "filter (\<lambda>m. ID m \<noteq> ID x) (rows (load_members st)) =
              filter (\<lambda>m. m \<noteq> x) (rows (load_members st))"
  proof (rule filter_cong [OF refl])
    fix m assume "m \<in> set (rows (load_members st))"
    then have "ID m = ID x \<Longrightarrow> m \<in> set (filter (\<lambda>m. ID m = ID x) (rows (load_members st)))"
      by simp
    then show "(ID m \<noteq> ID x) = (m \<noteq> x)" using assms(1) by auto
  qed
  have rd: "read_csv parse_rows (deleted_members_csv st) =
              Inr (Frame (columns (deleted_members_csv st)) (parse_rows (rows (deleted_members_csv st))))"
    for parse_rows
    using assms(2) by (simp add: read_csv_def)
  show "fst (delete_member (ID x) st) = Success ''Member deleted successfully.''"
    using ne assms(1) by (simp add: delete_member_def Let_def rd df_filter_def df_empty_def)
  show "members_csv (snd (delete_member (ID x) st)) =
           Frame (columns (load_members st)) (filter (\<lambda>m. m \<noteq> x) (rows (load_members st)))"
    using ne assms(1) same
    by (simp add: delete_member_def Let_def rd df_filter_def df_empty_def)
  show "rows (deleted_members_csv (snd (delete_member (ID x) st))) =
           parse_members (read_text st) (rows (deleted_members_csv st)) @ [x]"
    using ne assms(1)
    by (simp add: delete_member_def Let_def rd df_filter_def df_empty_def)
qed

text \<open>
  After a deletion the next registration reuses an id that is still in the table; the
  Delete button then removes both rows with that id and archives both.
\<close>

lemma reused_id_gym_members:
  "map ID (rows (load_members reused_id_gym)) = [2, 2]"
  "map Name (rows (load_members reused_id_gym)) = [Some ''Bob'', Some ''Carol'']"
  by (simp_all add: reused_id_gym_def register_member_def delete_member_def Let_def
      img_save_error_def replace_space_def parse_members_def plain_text_def to_csv_text_def)

lemma delete_member_reused_id:
  "rows (load_members (snd (delete_member 2 reused_id_gym))) = []"
  "map Name (rows (deleted_members_csv (snd (delete_member 2 reused_id_gym)))) =
     [Some ''Alice'', Some ''Bob'', Some ''Carol'']"
  by (simp_all add: reused_id_gym_def register_member_def delete_member_def Let_def
      img_save_error_def replace_space_def parse_members_def plain_text_def to_csv_text_def)

subsection \<open>Claims about Delete Member\<close>

text \<open>
  C6, on a new installation with its first member: the Delete button saves the member
  table without Alice, then reading the archive file raises \<open>EmptyDataError\<close>, so the
  archive stays the header-less file of the setup block and receives no record.
\<close>

theorem delete_member_fresh_archive_raises:
  "load_members first_member_gym = Frame members_columns [alice] \<and>
   fst (delete_member 1 first_member_gym) = Raised EmptyDataError \<and>
   load_members (snd (delete_member 1 first_member_gym)) = Frame members_columns [] \<and>
   deleted_members_csv (snd (delete_member 1 first_member_gym)) = empty_frame_csv"
  by (simp add: first_member_gym_state delete_member_def Let_def)

text \<open>
  C8: the Delete button leaves the attendance file, and so the attendance table, as it
  was, for every selected id and every state, whichever way the deletion ends.
\<close>

theorem delete_member_keeps_attendance:
  "attendance_csv (snd (delete_member selected_id st)) = attendance_csv st \<and>
   load_attendance (snd (delete_member selected_id st)) = load_attendance st"
  by (simp add: delete_member_attendance load_attendance_def)

theorem delete_member_keeps_attendance_witness:
  "attendance_csv (snd (delete_member 2 (gym_of [alice, bob] [alice_exited, bob_present]))) =
     Frame attendance_columns [alice_exited, bob_present] \<and>
   load_attendance (snd (delete_member 2 (gym_of [alice, bob] [alice_exited, bob_present]))) =
     Frame attendance_columns [alice_exited, bob_present]"
proof -
  have "attendance_csv (gym_of [alice, bob] [alice_exited, bob_present]) =
          Frame attendance_columns [alice_exited, bob_present]"
    by (simp add: gym_of_def)
  then show ?thesis
    using delete_member_keeps_attendance [of 2 "gym_of [alice, bob] [alice_exited, bob_present]"]
    by simp
qed

subsection \<open>Claims about Reset DB\<close>

text \<open>
  C7, as stated, at a concrete input: before the reset the member file has the canonical
  header; after it none of the three files has its header, and reading the archive file
  raises \<open>EmptyDataError\<close>.
\<close>

theorem reset_db_drops_headers:
  "columns (members_csv (gym_of [alice] [alice_exited])) = members_columns \<and>
   columns (members_csv (snd (reset_db (gym_of [alice] [alice_exited])))) \<noteq> members_columns \<and>
   columns (attendance_csv (snd (reset_db (gym_of [alice] [alice_exited])))) \<noteq> attendance_columns \<and>
   columns (deleted_members_csv (snd (reset_db (gym_of [alice] [alice_exited])))) \<noteq> members_columns \<and>
   read_csv (parse_members plain_text)
     (deleted_members_csv (snd (reset_db (gym_of [alice] [alice_exited])))) = Inl EmptyDataError"
  by (simp add: reset_db_def gym_of_def empty_frame_csv_def read_csv_def
      members_columns_def attendance_columns_def)

text \<open>
  C7 (amended): the reset replaces each of the three files by the file of an empty
  frame, which has no rows and no header row, and removes every stored photo;
  \<open>load_members\<close> and \<open>load_attendance\<close> then return, through their fallback, empty
  tables with their canonical columns.
\<close>

theorem reset_db_blank_files:
  "fst (reset_db st) = Success ''All data reset successfully!'' \<and>
   members_csv (snd (reset_db st)) = empty_frame_csv \<and>
   attendance_csv (snd (reset_db st)) = empty_frame_csv \<and>
   deleted_members_csv (snd (reset_db st)) = empty_frame_csv \<and>
   rows (empty_frame_csv :: member frame) = [] \<and> columns (empty_frame_csv :: member frame) = [] \<and>
   rows (empty_frame_csv :: attendance frame) = [] \<and>
   columns (empty_frame_csv :: attendance frame) = [] \<and>
   load_members (snd (reset_db st)) = Frame members_columns [] \<and>
   load_attendance (snd (reset_db st)) = Frame attendance_columns [] \<and>
   dom (member_images (snd (reset_db st))) = {}"
  by (simp add: reset_db_def empty_frame_csv_def load_members_def load_attendance_def read_csv_def)

theorem reset_db_blank_files_witness:
  "rows (load_members (gym_of [alice] [alice_exited])) = [alice] \<and>
   load_members (snd (reset_db (gym_of [alice] [alice_exited]))) =
     Frame [''ID'', ''Name'', ''Email'', ''Mobile'', ''Membership'', ''Fee'', ''ImagePath''] [] \<and>
   load_attendance (snd (reset_db (gym_of [alice] [alice_exited]))) =
     Frame [''ID'', ''Name'', ''Date'', ''EntryTime'', ''ExitTime'', ''Status''] [] \<and>
   deleted_members_csv (snd (reset_db (gym_of [alice] [alice_exited]))) = Frame [] [] \<and>
   member_images (snd (reset_db (gym_of [alice] [alice_exited]))) ''member_images/1_Alice.jpg'' = None"
  using reset_db_blank_files [of "gym_of [alice] [alice_exited]"]
  by (simp add: empty_frame_csv_def reset_db_def members_columns_def attendance_columns_def)

end
